theory Spec2Isabelle
  imports Main
begin

section \<open>Data model\<close>

text \<open>
  The entities of \<^verbatim>\<open>entities/task.entity.ts\<close> and the request objects of
  \<^verbatim>\<open>dto/*.ts\<close>. A JavaScript string is the list of its UTF-16 code units. A value
  that can be \<^verbatim>\<open>undefined\<close> or \<^verbatim>\<open>null\<close> at run time keeps the two apart: a nullable
  column is read back as \<^verbatim>\<open>null\<close>, a missing argument or property is \<^verbatim>\<open>undefined\<close>, and
  \<^verbatim>\<open>===\<close> tells them apart. Identifiers are JavaScript numbers holding integers, so
  they are \<open>int\<close>. A \<^verbatim>\<open>Date\<close> is its time value in milliseconds; the
  \<^verbatim>\<open>datetime NOT NULL\<close> columns of a stored task always hold a valid one. The
  store-maintained \<^verbatim>\<open>createdAt\<close>/\<^verbatim>\<open>updatedAt\<close> stamps and the joined
  \<^verbatim>\<open>assignedUser\<close>/\<^verbatim>\<open>assignedBy\<close> display objects are left out: every path below
  clears the cached \<^verbatim>\<open>assignedUser\<close> object before it changes the foreign key, and
  \<^verbatim>\<open>findOne\<close>, which loads the entity that is then changed and saved, does not load
  \<^verbatim>\<open>assignedBy\<close>, so the key fields alone decide what is written.
\<close>

type_synonym jsstring = "nat list"

datatype 'a nullable = Undefined | Null | Val 'a

datatype TaskStatus = IN_PROGRESS | COMPLETED

text \<open>
  Modelled from the spec: the enum \<^verbatim>\<open>UserRole\<close> of \<^verbatim>\<open>entities/user.entity.ts\<close>, a
  file that is not among the sources. The spec gives role \<open>\<in>\<close> {ADMIN, MANAGER, USER}.
\<close>

datatype UserRole = ADMIN | MANAGER | USER

record Task =
  taskId :: int
  title :: jsstring
  description :: "jsstring nullable"
  assignedUserId :: "int nullable"
  assignedById :: "int nullable"
  status :: TaskStatus
  startDate :: int
  endDate :: int

text \<open>
  The result of \<^verbatim>\<open>new Date(...)\<close>: \<open>None\<close> is the Invalid Date (time value NaN),
  \<open>Some ms\<close> a valid instant.
\<close>

type_synonym date = "int option"

text \<open>
  The creation and reassignment requests are only read property by property, where a
  missing key reads as \<^verbatim>\<open>undefined\<close>.
\<close>

record CreateTaskDto =
  cTitle :: "jsstring nullable"
  cDescription :: "jsstring nullable"
  cStartDate :: "jsstring nullable"
  cEndDate :: "jsstring nullable"
  cAssignedUserId :: "int nullable"
  cStatus :: "TaskStatus nullable"

text \<open>
  The update request is also asked for its keys (\<^verbatim>\<open>Object.keys\<close>): \<open>None\<close> is a key the
  object does not have, \<open>Some v\<close> a key it has, with value \<open>v\<close>, which may itself be
  \<^verbatim>\<open>undefined\<close> or, in a request body that passes \<^verbatim>\<open>@IsOptional\<close>, \<^verbatim>\<open>null\<close>. The
  six keys are the ones the class declares; the global \<^verbatim>\<open>ValidationPipe\<close>
  (\<^verbatim>\<open>forbidNonWhitelisted\<close>) turns away a request with any other key.
\<close>

record UpdateTaskDto =
  uTitle :: "jsstring nullable option"
  uDescription :: "jsstring nullable option"
  uStartDate :: "jsstring nullable option"
  uEndDate :: "jsstring nullable option"
  uAssignedUserId :: "int nullable option"
  uStatus :: "TaskStatus nullable option"

record ReassignTaskDto =
  rAssignedUserId :: "int nullable"

text \<open>
  \<^verbatim>\<open>Partial<Task>\<close>: the field-sets handed to the repository and to
  \<^verbatim>\<open>Object.assign\<close>; \<open>None\<close> is a key the object does not have.
\<close>

record PartialTask =
  pTitle :: "jsstring nullable option"
  pDescription :: "jsstring nullable option"
  pStatus :: "TaskStatus nullable option"
  pStartDate :: "date option"
  pEndDate :: "date option"
  pAssignedUserId :: "int nullable option"
  pAssignedById :: "int nullable option"

text \<open>The exception classes of \<^verbatim>\<open>tasks/task-exceptions.ts\<close>, with their constructor arguments.\<close>

datatype error =
    TaskNotFoundException int
  | TaskValidationException string
  | TaskPermissionException string
  | TaskOperationException string int string
  | TaskInfrastructureException string string
  | TypeError

section \<open>JavaScript primitives the code relies on\<close>

text \<open>Reading a property: a missing key reads as \<^verbatim>\<open>undefined\<close>.\<close>

definition readProp :: "'a nullable option \<Rightarrow> 'a nullable" where
  "readProp f = (case f of None \<Rightarrow> Undefined | Some v \<Rightarrow> v)"

text \<open>
  Truthiness: \<^verbatim>\<open>undefined\<close> and \<^verbatim>\<open>null\<close> are falsy, a string is falsy when empty, a
  number when 0; the status strings are not empty.
\<close>

definition truthyStr :: "jsstring nullable \<Rightarrow> bool" where
  "truthyStr s = (case s of Val x \<Rightarrow> x \<noteq> [] | _ \<Rightarrow> False)"

definition truthyNum :: "int nullable \<Rightarrow> bool" where
  "truthyNum n = (case n of Val x \<Rightarrow> x \<noteq> 0 | _ \<Rightarrow> False)"

text \<open>The truthiness of a \<^verbatim>\<open>number | null\<close> argument, \<open>None\<close> being \<^verbatim>\<open>null\<close>.\<close>

definition truthyId :: "int option \<Rightarrow> bool" where
  "truthyId n = (case n of None \<Rightarrow> False | Some x \<Rightarrow> x \<noteq> 0)"

definition isVal :: "'a nullable \<Rightarrow> bool" where
  "isVal v = (case v of Val x \<Rightarrow> True | _ \<Rightarrow> False)"

text \<open>
  \<^verbatim>\<open>String.prototype.trim\<close> strips the ECMAScript white space and line terminator code
  points from both ends: TAB, LF, VT, FF, CR, SPACE, NO-BREAK SPACE, U+1680,
  U+2000 to U+200A, U+2028, U+2029, U+202F, U+205F, U+3000 and U+FEFF. All of them
  are single code units. U+180E is not among them: Unicode 6.3 took it out of the
  space separators.
\<close>

definition isSpace :: "nat \<Rightarrow> bool" where
  "isSpace c = (c \<in> set [0x09, 0x0A, 0x0B, 0x0C, 0x0D, 0x20, 0xA0, 0x1680, 0x2028, 0x2029,
                          0x202F, 0x205F, 0x3000, 0xFEFF]
                \<or> (0x2000 \<le> c \<and> c \<le> 0x200A))"

definition trim :: "jsstring \<Rightarrow> jsstring" where
  "trim s = rev (dropWhile isSpace (rev (dropWhile isSpace s)))"

text \<open>\<^verbatim>\<open>x?.trim()\<close>: \<^verbatim>\<open>undefined\<close> for an \<^verbatim>\<open>x\<close> that is \<^verbatim>\<open>undefined\<close> or \<^verbatim>\<open>null\<close>.\<close>

definition optTrim :: "jsstring nullable \<Rightarrow> jsstring nullable" where
  "optTrim s = (case s of Val x \<Rightarrow> Val (trim x) | _ \<Rightarrow> Undefined)"

text \<open>\<^verbatim>\<open>status || TaskStatus.IN_PROGRESS\<close>.\<close>

definition statusOrDefault :: "TaskStatus nullable \<Rightarrow> TaskStatus" where
  "statusOrDefault s = (case s of Val x \<Rightarrow> x | _ \<Rightarrow> IN_PROGRESS)"

text \<open>
  Relational operators on two \<^verbatim>\<open>Date\<close>s compare the time values, and every comparison
  with NaN is false.
\<close>

definition dateGe :: "date \<Rightarrow> date \<Rightarrow> bool" where
  "dateGe a b = (case (a, b) of (Some x, Some y) \<Rightarrow> x \<ge> y | _ \<Rightarrow> False)"

definition dateLt :: "date \<Rightarrow> date \<Rightarrow> bool" where
  "dateLt a b = (case (a, b) of (Some x, Some y) \<Rightarrow> x < y | _ \<Rightarrow> False)"

text \<open>
  What the operations read from their surroundings: the clock (\<^verbatim>\<open>new Date()\<close>), the
  runtime's date parser (\<^verbatim>\<open>new Date(string)\<close>), and whether a call to the job queue or
  to the notification gateway throws.
\<close>

record env =
  now :: int
  parseDate :: "jsstring \<Rightarrow> date"
  queueFails :: "int \<Rightarrow> bool"
  notifyFails :: "int \<Rightarrow> string \<Rightarrow> bool"

text \<open>
  \<^verbatim>\<open>new Date(x)\<close>: the parser's answer for a string, the Invalid Date for
  \<^verbatim>\<open>undefined\<close>, and the epoch for \<^verbatim>\<open>null\<close> (which converts to the number 0).
\<close>

definition newDate :: "env \<Rightarrow> jsstring nullable \<Rightarrow> date" where
  "newDate e s = (case s of Undefined \<Rightarrow> None | Null \<Rightarrow> Some 0 | Val x \<Rightarrow> parseDate e x)"

section \<open>Store, queue, gateway and log\<close>

text \<open>
  What the gateway is handed: the snapshot built by \<^verbatim>\<open>formatTaskForNotification\<close>. The
  human-readable message of the payload is not modelled.
\<close>

record TaskSnapshot =
  sId :: int
  sTitle :: jsstring
  sDescription :: "jsstring nullable"
  sStartDate :: int
  sEndDate :: int
  sStatus :: TaskStatus

text \<open>
  The state the operations act on: the rows of the \<^verbatim>\<open>tasks\<close> table with its
  AUTO_INCREMENT counter, the calls made to \<^verbatim>\<open>availabilityQueue.add\<close> (job name, user
  id) and to \<^verbatim>\<open>NotificationsGateway.notifyUser\<close> (user id, event, snapshot), in order,
  and the messages passed to \<^verbatim>\<open>logger.error\<close> (their constant prefix).
\<close>

record state =
  tasks :: "Task list"
  nextId :: int
  jobs :: "(string \<times> int) list"
  notified :: "(int \<times> string \<times> TaskSnapshot) list"
  errorLog :: "string list"

section \<open>Task repository\<close>

text \<open>\<^verbatim>\<open>TaskRepositoryService.findOne\<close>: the row with the given primary key.\<close>

definition findOne :: "Task list \<Rightarrow> int \<Rightarrow> Task option" where
  "findOne ts i = find (\<lambda>t. taskId t = i) ts"

text \<open>A column holds \<^verbatim>\<open>NULL\<close> or a value: an \<^verbatim>\<open>undefined\<close> property is inserted as NULL.\<close>

definition toColumn :: "'a nullable \<Rightarrow> 'a nullable" where
  "toColumn v = (case v of Undefined \<Rightarrow> Null | _ \<Rightarrow> v)"

text \<open>
  \<^verbatim>\<open>TaskRepositoryService.create\<close>: insert with a generated id. The columns
  \<^verbatim>\<open>title\<close>, \<^verbatim>\<open>status\<close>, \<^verbatim>\<open>start_date\<close> and \<^verbatim>\<open>end_date\<close> are NOT NULL
  (\<^verbatim>\<open>database/init.sql\<close>), so a missing or null title, a null status or an Invalid Date
  is rejected by the store, which the method rethrows as
  \<^verbatim>\<open>TaskInfrastructureException\<close>; an undefined \<^verbatim>\<open>status\<close> takes the column default.
\<close>

definition repoCreate :: "Task list \<Rightarrow> int \<Rightarrow> PartialTask \<Rightarrow> error + (Task \<times> Task list \<times> int)" where
  "repoCreate ts nid taskData =
     (case (pTitle taskData, pStartDate taskData, pEndDate taskData) of
        (Some (Val t), Some (Some s), Some (Some e)) \<Rightarrow>
          (if pStatus taskData = Some Null
           then Inl (TaskInfrastructureException ''TaskRepository'' ''create task'')
           else (let task = \<lparr> taskId = nid, title = t,
                              description = toColumn (readProp (pDescription taskData)),
                              assignedUserId = toColumn (readProp (pAssignedUserId taskData)),
                              assignedById = toColumn (readProp (pAssignedById taskData)),
                              status = statusOrDefault (readProp (pStatus taskData)),
                              startDate = s, endDate = e \<rparr>
                 in Inr (task, ts @ [task], nid + 1)))
      | _ \<Rightarrow> Inl (TaskInfrastructureException ''TaskRepository'' ''create task''))"

text \<open>
  \<^verbatim>\<open>TaskRepositoryService.save\<close> of a loaded entity: the row with the entity's key is
  updated. The mapper skips a property that is \<^verbatim>\<open>undefined\<close>, so the column keeps its
  value, and writes NULL for \<^verbatim>\<open>null\<close>. An entity whose key has no row is inserted.
\<close>

definition keepUndefined :: "'a nullable \<Rightarrow> 'a nullable \<Rightarrow> 'a nullable" where
  "keepUndefined column v = (case v of Undefined \<Rightarrow> column | _ \<Rightarrow> v)"

definition mergeRow :: "Task \<Rightarrow> Task \<Rightarrow> Task" where
  "mergeRow r t =
     r\<lparr> title := title t,
        description := keepUndefined (description r) (description t),
        assignedUserId := keepUndefined (assignedUserId r) (assignedUserId t),
        assignedById := keepUndefined (assignedById r) (assignedById t),
        status := status t, startDate := startDate t, endDate := endDate t \<rparr>"

definition insertRow :: "Task \<Rightarrow> Task" where
  "insertRow t =
     t\<lparr> description := toColumn (description t),
        assignedUserId := toColumn (assignedUserId t),
        assignedById := toColumn (assignedById t) \<rparr>"

definition save :: "Task list \<Rightarrow> Task \<Rightarrow> Task list" where
  "save ts t =
     (if findOne ts (taskId t) = None then ts @ [insertRow t]
      else map (\<lambda>r. if taskId r = taskId t then mergeRow r t else r) ts)"

text \<open>\<^verbatim>\<open>TaskRepositoryService.delete\<close>: remove the row when it exists.\<close>

definition repoDelete :: "Task list \<Rightarrow> int \<Rightarrow> Task list" where
  "repoDelete ts i =
     (case findOne ts i of None \<Rightarrow> ts | Some task \<Rightarrow> filter (\<lambda>r. taskId r \<noteq> taskId task) ts)"

text \<open>
  \<^verbatim>\<open>TaskRepositoryService.hasOverlappingTasks\<close>. The WHERE clause is the conjunction
  built by the query builder; \<^verbatim>\<open>if (excludeTaskId)\<close> adds the last conjunct only for a
  truthy id (\<open>None\<close> is the \<^verbatim>\<open>null\<close> the callers pass). The declared
  \<^verbatim>\<open>userId: number\<close> can be \<^verbatim>\<open>undefined\<close> or \<^verbatim>\<open>null\<close> at run time (the update path
  passes \<^verbatim>\<open>task.assignedUserId!\<close>); it is then bound as NULL, which equals no row. An
  Invalid Date cannot be bound as a datetime parameter: the failure is caught and
  rethrown as \<^verbatim>\<open>TaskInfrastructureException\<close>.
\<close>

definition overlapRow :: "int nullable \<Rightarrow> int \<Rightarrow> int \<Rightarrow> int option \<Rightarrow> Task \<Rightarrow> bool" where
  "overlapRow userId sd ed excludeTaskId t =
     (isVal userId \<and> assignedUserId t = userId
      \<and> status t \<noteq> COMPLETED
      \<and> (startDate t \<le> ed \<and> endDate t \<ge> sd)
      \<and> (if truthyId excludeTaskId then Some (taskId t) \<noteq> excludeTaskId else True))"

definition hasOverlappingTasks ::
  "Task list \<Rightarrow> int nullable \<Rightarrow> date \<Rightarrow> date \<Rightarrow> int option \<Rightarrow> error + bool" where
  "hasOverlappingTasks ts userId sd ed excludeTaskId =
     (case (sd, ed) of
        (Some s, Some e) \<Rightarrow>
          Inr (length (filter (overlapRow userId s e excludeTaskId) ts) > 0)
      | _ \<Rightarrow> Inl (TaskInfrastructureException ''TaskRepository'' ''check overlapping tasks''))"

section \<open>Availability service\<close>

text \<open>\<^verbatim>\<open>AvailabilityService.checkOverlap\<close> delegates to the repository.\<close>

definition checkOverlap ::
  "Task list \<Rightarrow> int nullable \<Rightarrow> date \<Rightarrow> date \<Rightarrow> int option \<Rightarrow> error + bool" where
  "checkOverlap ts userId sd ed excludeTaskId = hasOverlappingTasks ts userId sd ed excludeTaskId"

section \<open>Task validation domain\<close>

definition validateRequiredFields :: "CreateTaskDto \<Rightarrow> error + unit" where
  "validateRequiredFields dto =
     (if \<not> truthyStr (optTrim (cTitle dto))
        then Inl (TaskValidationException ''Task title is required'')
      else if \<not> truthyStr (cStartDate dto)
        then Inl (TaskValidationException ''Start date is required'')
      else if \<not> truthyStr (cEndDate dto)
        then Inl (TaskValidationException ''End date is required'')
      else if \<not> truthyNum (cAssignedUserId dto)
        then Inl (TaskValidationException ''Assigned user is required'')
      else Inr ())"

definition validateDateRange :: "env \<Rightarrow> jsstring nullable \<Rightarrow> jsstring nullable \<Rightarrow> error + unit" where
  "validateDateRange e sd ed =
     (let start = newDate e sd; end = newDate e ed in
      if dateGe start end
        then Inl (TaskValidationException ''Start date must be before end date'')
      else if dateLt start (Some (now e))
        then Inl (TaskValidationException ''Start date cannot be in the past'')
      else Inr ())"

definition validateTaskCreationData :: "env \<Rightarrow> CreateTaskDto \<Rightarrow> error + unit" where
  "validateTaskCreationData e dto =
     (case validateRequiredFields dto of
        Inl err \<Rightarrow> Inl err
      | Inr _ \<Rightarrow> validateDateRange e (cStartDate dto) (cEndDate dto))"

text \<open>
  \<^verbatim>\<open>Object.keys(updateRequest)\<close>: the keys the request has, whatever their values,
  listed in the order the DTO class declares them (only the text of the error message
  depends on the order).
\<close>

definition objectKeys :: "UpdateTaskDto \<Rightarrow> string list" where
  "objectKeys dto =
     (if uTitle dto \<noteq> None then [''title''] else [])
     @ (if uDescription dto \<noteq> None then [''description''] else [])
     @ (if uStartDate dto \<noteq> None then [''startDate''] else [])
     @ (if uEndDate dto \<noteq> None then [''endDate''] else [])
     @ (if uAssignedUserId dto \<noteq> None then [''assignedUserId''] else [])
     @ (if uStatus dto \<noteq> None then [''status''] else [])"

fun joinWith :: "string \<Rightarrow> string list \<Rightarrow> string" where
  "joinWith sep [] = []"
| "joinWith sep [x] = x"
| "joinWith sep (x # y # ys) = x @ sep @ joinWith sep (y # ys)"

definition validateUserCanOnlyUpdateStatus :: "UpdateTaskDto \<Rightarrow> error + unit" where
  "validateUserCanOnlyUpdateStatus updateRequest =
     (let allowedFields = [''status''];
          requestedFields = objectKeys updateRequest;
          restrictedFields = filter (\<lambda>field. field \<notin> set allowedFields) requestedFields
      in if length restrictedFields > 0
         then Inl (TaskPermissionException
                (''Regular users can only update: '' @ joinWith '', '' allowedFields @ ''. ''
                 @ ''Attempted to update: '' @ joinWith '', '' restrictedFields))
         else Inr ())"

text \<open>
  \<^verbatim>\<open>task.assignedUserId !== currentUserId\<close> is strict inequality: \<^verbatim>\<open>null\<close> differs
  from \<^verbatim>\<open>undefined\<close>, and two numbers differ when their values do.
\<close>

definition validateTaskUpdatePermissions ::
  "Task \<Rightarrow> UpdateTaskDto \<Rightarrow> UserRole option \<Rightarrow> int nullable \<Rightarrow> error + unit" where
  "validateTaskUpdatePermissions task updateRequest userRole currentUserId =
     (if userRole = Some USER \<and> assignedUserId task \<noteq> currentUserId
        then Inl (TaskPermissionException ''You can only update your own tasks'')
      else if userRole = Some USER
        then validateUserCanOnlyUpdateStatus updateRequest
      else Inr ())"

definition validateTaskReassignmentData :: "ReassignTaskDto \<Rightarrow> error + unit" where
  "validateTaskReassignmentData reassignmentRequest =
     (if \<not> truthyNum (rAssignedUserId reassignmentRequest)
        then Inl (TaskValidationException ''Assigned user ID is required for reassignment'')
      else Inr ())"

section \<open>Task data preparation domain\<close>

text \<open>
  \<^verbatim>\<open>createRequest.title.trim()\<close> on a title that is \<^verbatim>\<open>undefined\<close> or \<^verbatim>\<open>null\<close> is a
  TypeError.
\<close>

definition prepareTaskForCreation ::
  "env \<Rightarrow> CreateTaskDto \<Rightarrow> int nullable \<Rightarrow> error + PartialTask" where
  "prepareTaskForCreation e createRequest creatorUserId =
     (case cTitle createRequest of
        Val t \<Rightarrow>
          Inr \<lparr> pTitle = Some (Val (trim t)),
                pDescription = Some (optTrim (cDescription createRequest)),
                pStatus = Some (Val (statusOrDefault (cStatus createRequest))),
                pStartDate = Some (newDate e (cStartDate createRequest)),
                pEndDate = Some (newDate e (cEndDate createRequest)),
                pAssignedUserId = Some (cAssignedUserId createRequest),
                pAssignedById = Some creatorUserId \<rparr>
      | _ \<Rightarrow> Inl TypeError)"

text \<open>
  \<^verbatim>\<open>prepareTaskForUpdate\<close>: a field enters the patch when its value is not
  \<^verbatim>\<open>undefined\<close> (dates: when truthy); \<^verbatim>\<open>updateRequest.title.trim()\<close> on a null title is
  a TypeError.
\<close>

definition prepareTaskForUpdate :: "env \<Rightarrow> Task \<Rightarrow> UpdateTaskDto \<Rightarrow> error + PartialTask" where
  "prepareTaskForUpdate e existingTask updateRequest =
     (if readProp (uTitle updateRequest) = Null then Inl TypeError
      else Inr
        \<lparr> pTitle = (case readProp (uTitle updateRequest) of
                      Val t \<Rightarrow> Some (Val (trim t)) | _ \<Rightarrow> None),
          pDescription = (if readProp (uDescription updateRequest) \<noteq> Undefined
                          then Some (optTrim (readProp (uDescription updateRequest))) else None),
          pStatus = (if readProp (uStatus updateRequest) \<noteq> Undefined
                     then Some (readProp (uStatus updateRequest)) else None),
          pStartDate = (if truthyStr (readProp (uStartDate updateRequest))
                        then Some (newDate e (readProp (uStartDate updateRequest))) else None),
          pEndDate = (if truthyStr (readProp (uEndDate updateRequest))
                      then Some (newDate e (readProp (uEndDate updateRequest))) else None),
          pAssignedUserId = None,
          pAssignedById = None \<rparr>)"

text \<open>
  \<^verbatim>\<open>applyTaskReassignment\<close> mutates the entity it is given; the model returns the
  mutated entity.
\<close>

definition applyTaskReassignment :: "Task \<Rightarrow> ReassignTaskDto \<Rightarrow> int nullable \<Rightarrow> Task" where
  "applyTaskReassignment targetTask reassignmentRequest requestingUserId =
     targetTask\<lparr> assignedUserId := rAssignedUserId reassignmentRequest,
                 assignedById := requestingUserId \<rparr>"

definition requiresOverlapValidation :: "UpdateTaskDto \<Rightarrow> bool" where
  "requiresOverlapValidation updateRequest =
     (truthyNum (readProp (uAssignedUserId updateRequest))
      \<or> truthyStr (readProp (uStartDate updateRequest))
      \<or> truthyStr (readProp (uEndDate updateRequest)))"

definition calculateEffectiveDateRange :: "env \<Rightarrow> Task \<Rightarrow> UpdateTaskDto \<Rightarrow> date \<times> date" where
  "calculateEffectiveDateRange e existingTask updateRequest =
     (let effectiveStartDate =
            (if truthyStr (readProp (uStartDate updateRequest))
             then newDate e (readProp (uStartDate updateRequest))
             else Some (startDate existingTask));
          effectiveEndDate =
            (if truthyStr (readProp (uEndDate updateRequest))
             then newDate e (readProp (uEndDate updateRequest))
             else Some (endDate existingTask))
      in (effectiveStartDate, effectiveEndDate))"

section \<open>Task domain service\<close>

definition overlapMessage :: string where
  "overlapMessage = ''User already has an overlapping task during this time period''"

definition prepareTaskCreation :: "env \<Rightarrow> Task list \<Rightarrow> CreateTaskDto \<Rightarrow> error + PartialTask" where
  "prepareTaskCreation e ts createTaskDto =
     (case validateTaskCreationData e createTaskDto of
        Inl err \<Rightarrow> Inl err
      | Inr _ \<Rightarrow>
          (case checkOverlap ts (cAssignedUserId createTaskDto)
                   (newDate e (cStartDate createTaskDto))
                   (newDate e (cEndDate createTaskDto)) None of
             Inl err \<Rightarrow> Inl err
           | Inr hasOverlap \<Rightarrow>
               if hasOverlap then Inl (TaskValidationException overlapMessage)
               else prepareTaskForCreation e createTaskDto Undefined))"

definition prepareTaskUpdate ::
  "env \<Rightarrow> Task list \<Rightarrow> int \<Rightarrow> UpdateTaskDto \<Rightarrow> UserRole option \<Rightarrow> int nullable
     \<Rightarrow> error + (Task \<times> PartialTask \<times> bool)" where
  "prepareTaskUpdate e ts tid updateTaskDto currentUserRole currentUserId =
     (case findOne ts tid of
        None \<Rightarrow> Inl (TaskNotFoundException tid)
      | Some task \<Rightarrow>
          (case validateTaskUpdatePermissions task updateTaskDto currentUserRole currentUserId of
             Inl err \<Rightarrow> Inl err
           | Inr _ \<Rightarrow>
               (let requiresOverlapCheck = requiresOverlapValidation updateTaskDto in
                case (if requiresOverlapCheck
                      then (case calculateEffectiveDateRange e task updateTaskDto of
                              (sd, ed) \<Rightarrow>
                                checkOverlap ts
                                  (if truthyNum (readProp (uAssignedUserId updateTaskDto))
                                   then readProp (uAssignedUserId updateTaskDto)
                                   else assignedUserId task)
                                  sd ed (Some tid))
                      else Inr False) of
                  Inl err \<Rightarrow> Inl err
                | Inr hasOverlap \<Rightarrow>
                    if hasOverlap then Inl (TaskValidationException overlapMessage)
                    else (case prepareTaskForUpdate e task updateTaskDto of
                            Inl err \<Rightarrow> Inl err
                          | Inr updates \<Rightarrow> Inr (task, updates, requiresOverlapCheck)))))"

definition prepareTaskReassignment ::
  "Task list \<Rightarrow> int \<Rightarrow> ReassignTaskDto \<Rightarrow> error + (Task \<times> bool)" where
  "prepareTaskReassignment ts tid reassignTaskDto =
     (case findOne ts tid of
        None \<Rightarrow> Inl (TaskNotFoundException tid)
      | Some task \<Rightarrow>
          (case validateTaskReassignmentData reassignTaskDto of
             Inl err \<Rightarrow> Inl err
           | Inr _ \<Rightarrow>
               (case checkOverlap ts (rAssignedUserId reassignTaskDto)
                        (Some (startDate task)) (Some (endDate task)) (Some tid) of
                  Inl err \<Rightarrow> Inl err
                | Inr hasOverlap \<Rightarrow>
                    if hasOverlap then Inl (TaskValidationException overlapMessage)
                    else Inr (applyTaskReassignment task reassignTaskDto Undefined, False))))"

definition validateTaskDeletion :: "Task list \<Rightarrow> int \<Rightarrow> error + Task" where
  "validateTaskDeletion ts tid =
     (case findOne ts tid of None \<Rightarrow> Inl (TaskNotFoundException tid) | Some task \<Rightarrow> Inr task)"

section \<open>Task business logic service\<close>

definition validateTaskCreation :: "env \<Rightarrow> Task list \<Rightarrow> CreateTaskDto \<Rightarrow> error + unit" where
  "validateTaskCreation e ts createTaskDto =
     (case prepareTaskCreation e ts createTaskDto of Inl err \<Rightarrow> Inl err | Inr _ \<Rightarrow> Inr ())"

definition validateTaskUpdate ::
  "env \<Rightarrow> Task list \<Rightarrow> int \<Rightarrow> UpdateTaskDto \<Rightarrow> UserRole option \<Rightarrow> int nullable \<Rightarrow> error + Task" where
  "validateTaskUpdate e ts tid updateTaskDto currentUserRole currentUserId =
     (case prepareTaskUpdate e ts tid updateTaskDto currentUserRole currentUserId of
        Inl err \<Rightarrow> Inl err
      | Inr (task, updates, requiresOverlapCheck) \<Rightarrow> Inr task)"

definition validateTaskReassignment :: "Task list \<Rightarrow> int \<Rightarrow> ReassignTaskDto \<Rightarrow> error + Task" where
  "validateTaskReassignment ts tid reassignTaskDto =
     (case prepareTaskReassignment ts tid reassignTaskDto of
        Inl err \<Rightarrow> Inl err
      | Inr (task, requiresOverlapCheck) \<Rightarrow> Inr task)"

text \<open>\<^verbatim>\<open>buildTaskEntityForCreation\<close>: the request spread, with four keys overridden.\<close>

definition buildTaskEntityForCreation ::
  "env \<Rightarrow> CreateTaskDto \<Rightarrow> int nullable \<Rightarrow> PartialTask" where
  "buildTaskEntityForCreation e taskCreationRequest creatorUserId =
     \<lparr> pTitle = Some (cTitle taskCreationRequest),
       pDescription = Some (cDescription taskCreationRequest),
       pStatus = Some (Val (statusOrDefault (cStatus taskCreationRequest))),
       pStartDate = Some (newDate e (cStartDate taskCreationRequest)),
       pEndDate = Some (newDate e (cEndDate taskCreationRequest)),
       pAssignedUserId = Some (cAssignedUserId taskCreationRequest),
       pAssignedById = Some creatorUserId \<rparr>"

text \<open>
  \<^verbatim>\<open>buildTaskEntityForUpdate\<close> returns the patch and, for a changed assignee, mutates
  the entity; the model returns both.
\<close>

definition buildTaskEntityForUpdate ::
  "env \<Rightarrow> Task \<Rightarrow> UpdateTaskDto \<Rightarrow> int nullable \<Rightarrow> Task \<times> PartialTask" where
  "buildTaskEntityForUpdate e existingTask requestedUpdates requestingUserId =
     (let entityUpdates =
            \<lparr> pTitle = (if readProp (uTitle requestedUpdates) \<noteq> Undefined
                        then Some (readProp (uTitle requestedUpdates)) else None),
              pDescription = (if readProp (uDescription requestedUpdates) \<noteq> Undefined
                              then Some (readProp (uDescription requestedUpdates)) else None),
              pStatus = (if readProp (uStatus requestedUpdates) \<noteq> Undefined
                         then Some (readProp (uStatus requestedUpdates)) else None),
              pStartDate = (if truthyStr (readProp (uStartDate requestedUpdates))
                            then Some (newDate e (readProp (uStartDate requestedUpdates))) else None),
              pEndDate = (if truthyStr (readProp (uEndDate requestedUpdates))
                          then Some (newDate e (readProp (uEndDate requestedUpdates))) else None),
              pAssignedUserId = None,
              pAssignedById = None \<rparr>
      in if truthyNum (readProp (uAssignedUserId requestedUpdates))
            \<and> readProp (uAssignedUserId requestedUpdates) \<noteq> assignedUserId existingTask
         then (existingTask\<lparr> assignedUserId := readProp (uAssignedUserId requestedUpdates),
                             assignedById := requestingUserId \<rparr>, entityUpdates)
         else (existingTask, entityUpdates))"

definition buildTaskEntityForReassignment ::
  "Task \<Rightarrow> ReassignTaskDto \<Rightarrow> int nullable \<Rightarrow> PartialTask" where
  "buildTaskEntityForReassignment targetTask reassignmentRequest requestingUserId =
     \<lparr> pTitle = None, pDescription = None, pStatus = None, pStartDate = None, pEndDate = None,
       pAssignedUserId = Some (rAssignedUserId reassignmentRequest),
       pAssignedById = Some requestingUserId \<rparr>"

section \<open>Task notification service\<close>

definition formatTaskForNotification :: "Task \<Rightarrow> TaskSnapshot" where
  "formatTaskForNotification task =
     \<lparr> sId = taskId task, sTitle = title task, sDescription = description task,
       sStartDate = startDate task, sEndDate = endDate task, sStatus = status task \<rparr>"

text \<open>
  \<^verbatim>\<open>NotificationsGateway.notifyUser\<close> as the service sees it: the call is recorded, and
  it either returns (\<open>True\<close>) or throws (\<open>False\<close>).
\<close>

definition notifyUser :: "env \<Rightarrow> int \<Rightarrow> string \<Rightarrow> TaskSnapshot \<Rightarrow> state \<Rightarrow> bool \<times> state" where
  "notifyUser e userId event payload s =
     (\<not> notifyFails e userId event, s\<lparr> notified := notified s @ [(userId, event, payload)] \<rparr>)"

text \<open>The \<^verbatim>\<open>try { notifyUser(...) } catch { logger.error(...) }\<close> block shared by the four methods.\<close>

definition tryNotify :: "env \<Rightarrow> int \<Rightarrow> string \<Rightarrow> Task \<Rightarrow> string \<Rightarrow> state \<Rightarrow> state" where
  "tryNotify e userId event task failure s =
     (case notifyUser e userId event (formatTaskForNotification task) s of
        (True, s') \<Rightarrow> s'
      | (False, s') \<Rightarrow> s'\<lparr> errorLog := errorLog s' @ [failure] \<rparr>)"

definition notifyTaskCreated :: "env \<Rightarrow> Task \<Rightarrow> state \<Rightarrow> state" where
  "notifyTaskCreated e task s =
     (case assignedUserId task of
        Val u \<Rightarrow>
          if u = 0 then s
          else tryNotify e u ''task:created'' task ''Failed to send task creation notification'' s
      | _ \<Rightarrow> s)"

definition notifyTaskCompleted :: "env \<Rightarrow> Task \<Rightarrow> state \<Rightarrow> state" where
  "notifyTaskCompleted e task s =
     (case assignedById task of
        Val u \<Rightarrow>
          if u = 0 then s
          else tryNotify e u ''task:completed'' task ''Failed to send completion notification'' s
      | _ \<Rightarrow> s)"

definition notifyTaskReassigned :: "env \<Rightarrow> Task \<Rightarrow> int nullable \<Rightarrow> state \<Rightarrow> state" where
  "notifyTaskReassigned e task oldAssignedUserId s =
     (case assignedUserId task of
        Val u \<Rightarrow>
          if u = 0 \<or> assignedUserId task = oldAssignedUserId then s
          else tryNotify e u ''task:reassigned'' task
                 ''Failed to send task reassignment notification'' s
      | _ \<Rightarrow> s)"

definition notifyTaskDeleted :: "env \<Rightarrow> Task \<Rightarrow> state \<Rightarrow> state" where
  "notifyTaskDeleted e task s =
     (case assignedUserId task of
        Val u \<Rightarrow>
          if u = 0 then s
          else tryNotify e u ''task:deleted'' task ''Failed to send task deletion notification'' s
      | _ \<Rightarrow> s)"

section \<open>Tasks service\<close>

text \<open>
  \<^verbatim>\<open>queueAvailabilityUpdate\<close>: for a truthy user id the job is handed to the queue inside
  a try block whose catch only logs.
\<close>

definition queueAvailabilityUpdate :: "env \<Rightarrow> int nullable \<Rightarrow> state \<Rightarrow> state" where
  "queueAvailabilityUpdate e userId s =
     (case userId of
        Val u \<Rightarrow>
          if u = 0 then s
          else (let s' = s\<lparr> jobs := jobs s @ [(''update-availability'', u)] \<rparr>
                in if queueFails e u
                   then s'\<lparr> errorLog := errorLog s' @ [''Failed to queue availability update for user''] \<rparr>
                   else s')
      | _ \<Rightarrow> s)"

text \<open>
  \<^verbatim>\<open>Object.assign(task, updates)\<close> copies every key the patch has. \<open>None\<close> is an
  entity the store will reject: a null title, a null status or an Invalid Date in a
  NOT NULL column. A title or status set to \<^verbatim>\<open>undefined\<close> would be skipped by the
  mapper; the entity then keeps the loaded value.
\<close>

definition objectAssign :: "Task \<Rightarrow> PartialTask \<Rightarrow> Task option" where
  "objectAssign task updates =
     (if pTitle updates = Some Null \<or> pStatus updates = Some Null
         \<or> pStartDate updates = Some None \<or> pEndDate updates = Some None then None
      else Some (task\<lparr>
        title := (case pTitle updates of Some (Val x) \<Rightarrow> x | _ \<Rightarrow> title task),
        description := (case pDescription updates of None \<Rightarrow> description task | Some d \<Rightarrow> d),
        assignedUserId :=
          (case pAssignedUserId updates of None \<Rightarrow> assignedUserId task | Some u \<Rightarrow> u),
        assignedById :=
          (case pAssignedById updates of None \<Rightarrow> assignedById task | Some u \<Rightarrow> u),
        status := (case pStatus updates of Some (Val x) \<Rightarrow> x | _ \<Rightarrow> status task),
        startDate := (case pStartDate updates of Some (Some v) \<Rightarrow> v | _ \<Rightarrow> startDate task),
        endDate := (case pEndDate updates of Some (Some v) \<Rightarrow> v | _ \<Rightarrow> endDate task) \<rparr>))"

text \<open>
  \<^verbatim>\<open>saveAndReloadTask\<close>: \<^verbatim>\<open>Object.assign\<close>, then \<^verbatim>\<open>TaskRepositoryService.save\<close>, which
  rethrows the store's rejection as \<^verbatim>\<open>TaskInfrastructureException\<close>.
\<close>

definition saveAndReloadTask :: "Task list \<Rightarrow> Task \<Rightarrow> PartialTask \<Rightarrow> error + (Task \<times> Task list)" where
  "saveAndReloadTask ts task updates =
     (case objectAssign task updates of
        None \<Rightarrow> Inl (TaskInfrastructureException ''TaskRepository'' ''save task'')
      | Some t \<Rightarrow> Inr (t, save ts t))"

definition reloadTaskWithRelations :: "Task list \<Rightarrow> int \<Rightarrow> string \<Rightarrow> error + Task" where
  "reloadTaskWithRelations ts tid operation =
     (case findOne ts tid of
        None \<Rightarrow> Inl (TaskOperationException operation tid ''task not found after operation'')
      | Some result \<Rightarrow> Inr result)"

definition create :: "env \<Rightarrow> CreateTaskDto \<Rightarrow> int nullable \<Rightarrow> state \<Rightarrow> (error + Task) \<times> state" where
  "create e createTaskDto currentUserId s =
     (case validateTaskCreation e (tasks s) createTaskDto of
        Inl err \<Rightarrow> (Inl err, s)
      | Inr _ \<Rightarrow>
          (let taskData = buildTaskEntityForCreation e createTaskDto currentUserId in
           case repoCreate (tasks s) (nextId s) taskData of
             Inl err \<Rightarrow> (Inl err, s)
           | Inr (savedTask, ts', nid') \<Rightarrow>
               (let s1 = s\<lparr> tasks := ts', nextId := nid' \<rparr>;
                    s2 = queueAvailabilityUpdate e (assignedUserId savedTask) s1
                in case reloadTaskWithRelations (tasks s2) (taskId savedTask) ''created'' of
                     Inl err \<Rightarrow> (Inl err, s2)
                   | Inr result \<Rightarrow> (Inr result, notifyTaskCreated e result s2))))"

record TaskUpdateContext =
  ctxTask :: Task
  ctxUpdates :: PartialTask
  ctxOldAssignedUserId :: "int nullable"
  ctxOldStatus :: TaskStatus

text \<open>The private \<^verbatim>\<open>TasksService.prepareTaskUpdate\<close>.\<close>

definition servicePrepareTaskUpdate ::
  "env \<Rightarrow> Task list \<Rightarrow> int \<Rightarrow> UpdateTaskDto \<Rightarrow> int nullable \<Rightarrow> UserRole option
     \<Rightarrow> error + TaskUpdateContext" where
  "servicePrepareTaskUpdate e ts tid updateTaskDto currentUserId currentUserRole =
     (case validateTaskUpdate e ts tid updateTaskDto currentUserRole currentUserId of
        Inl err \<Rightarrow> Inl err
      | Inr task \<Rightarrow>
          (let oldAssignedUserId = assignedUserId task;
               oldStatus = status task
           in case buildTaskEntityForUpdate e task updateTaskDto currentUserId of
                (task', updates) \<Rightarrow>
                  Inr \<lparr> ctxTask = task', ctxUpdates = updates,
                        ctxOldAssignedUserId = oldAssignedUserId, ctxOldStatus = oldStatus \<rparr>))"

definition executeTaskUpdate :: "TaskUpdateContext \<Rightarrow> state \<Rightarrow> (error + Task) \<times> state" where
  "executeTaskUpdate ctx s =
     (case saveAndReloadTask (tasks s) (ctxTask ctx) (ctxUpdates ctx) of
        Inl err \<Rightarrow> (Inl err, s)
      | Inr (savedTask, ts') \<Rightarrow>
          (let s1 = s\<lparr> tasks := ts' \<rparr>
           in case reloadTaskWithRelations (tasks s1) (taskId savedTask) ''updated'' of
                Inl err \<Rightarrow> (Inl err, s1)
              | Inr result \<Rightarrow> (Inr result, s1)))"

definition handleAvailabilityUpdates ::
  "env \<Rightarrow> UpdateTaskDto \<Rightarrow> int nullable \<Rightarrow> int nullable \<Rightarrow> state \<Rightarrow> state" where
  "handleAvailabilityUpdates e updateTaskDto oldAssignedUserId newAssignedUserId s =
     (let s1 = (if truthyNum newAssignedUserId
                   \<and> (truthyStr (readProp (uStartDate updateTaskDto))
                      \<or> truthyStr (readProp (uEndDate updateTaskDto))
                      \<or> truthyNum (readProp (uAssignedUserId updateTaskDto)))
                then queueAvailabilityUpdate e newAssignedUserId s else s)
      in if truthyNum (readProp (uAssignedUserId updateTaskDto)) \<and> truthyNum oldAssignedUserId
            \<and> oldAssignedUserId \<noteq> newAssignedUserId
         then queueAvailabilityUpdate e oldAssignedUserId s1 else s1)"

definition handleUpdateNotifications ::
  "env \<Rightarrow> Task \<Rightarrow> UpdateTaskDto \<Rightarrow> TaskStatus \<Rightarrow> state \<Rightarrow> state" where
  "handleUpdateNotifications e task updateTaskDto oldStatus s =
     (if readProp (uStatus updateTaskDto) = Val COMPLETED \<and> oldStatus \<noteq> COMPLETED
      then notifyTaskCompleted e task s else s)"

definition handleTaskUpdateSideEffects ::
  "env \<Rightarrow> TaskUpdateContext \<Rightarrow> Task \<Rightarrow> UpdateTaskDto \<Rightarrow> state \<Rightarrow> state" where
  "handleTaskUpdateSideEffects e ctx updatedTask updateTaskDto s =
     handleUpdateNotifications e updatedTask updateTaskDto (ctxOldStatus ctx)
       (handleAvailabilityUpdates e updateTaskDto (ctxOldAssignedUserId ctx)
          (assignedUserId updatedTask) s)"

definition update ::
  "env \<Rightarrow> int \<Rightarrow> UpdateTaskDto \<Rightarrow> int nullable \<Rightarrow> UserRole option \<Rightarrow> state
     \<Rightarrow> (error + Task) \<times> state" where
  "update e tid updateTaskDto currentUserId currentUserRole s =
     (case servicePrepareTaskUpdate e (tasks s) tid updateTaskDto currentUserId currentUserRole of
        Inl err \<Rightarrow> (Inl err, s)
      | Inr updateContext \<Rightarrow>
          (case executeTaskUpdate updateContext s of
             (Inl err, s1) \<Rightarrow> (Inl err, s1)
           | (Inr updatedTask, s1) \<Rightarrow>
               (Inr updatedTask,
                handleTaskUpdateSideEffects e updateContext updatedTask updateTaskDto s1)))"

text \<open>
  \<^verbatim>\<open>TasksService.reassign\<close>. The entity returned by the validation step is the one
  \<^verbatim>\<open>prepareTaskReassignment\<close> has already mutated, and \<^verbatim>\<open>oldAssignedUserId\<close> is read
  from it.
\<close>

definition reassign ::
  "env \<Rightarrow> int \<Rightarrow> ReassignTaskDto \<Rightarrow> int nullable \<Rightarrow> state \<Rightarrow> (error + Task) \<times> state" where
  "reassign e tid reassignTaskDto currentUserId s =
     (case validateTaskReassignment (tasks s) tid reassignTaskDto of
        Inl err \<Rightarrow> (Inl err, s)
      | Inr task \<Rightarrow>
          (let oldAssignedUserId = assignedUserId task;
               updates = buildTaskEntityForReassignment task reassignTaskDto currentUserId
           in case saveAndReloadTask (tasks s) task updates of
                Inl err \<Rightarrow> (Inl err, s)
              | Inr (savedTask, ts') \<Rightarrow>
                  (let s1 = s\<lparr> tasks := ts' \<rparr>;
                       s2 = queueAvailabilityUpdate e (assignedUserId savedTask) s1;
                       s3 = (if truthyNum oldAssignedUserId
                                \<and> oldAssignedUserId \<noteq> assignedUserId savedTask
                             then queueAvailabilityUpdate e oldAssignedUserId s2 else s2)
                   in case reloadTaskWithRelations (tasks s3) (taskId savedTask) ''reassigned'' of
                        Inl err \<Rightarrow> (Inl err, s3)
                      | Inr result \<Rightarrow>
                          (Inr result, notifyTaskReassigned e result oldAssignedUserId s3))))"

definition remove :: "env \<Rightarrow> int \<Rightarrow> state \<Rightarrow> (error + unit) \<times> state" where
  "remove e tid s =
     (case validateTaskDeletion (tasks s) tid of
        Inl err \<Rightarrow> (Inl err, s)
      | Inr task \<Rightarrow>
          (let assignedUser = assignedUserId task;
               s1 = s\<lparr> tasks := repoDelete (tasks s) tid \<rparr>;
               s2 = queueAvailabilityUpdate e assignedUser s1
           in (Inr (), notifyTaskDeleted e task s2)))"

section \<open>The no-overlap invariant\<close>

text \<open>
  A task covers an instant for a user when it is assigned to that user, is not
  COMPLETED, and the instant lies in its window, boundaries included. The invariant:
  for every user and every instant at most one task covers it.
\<close>

definition covers :: "Task \<Rightarrow> int \<Rightarrow> int \<Rightarrow> bool" where
  "covers t u i =
     (assignedUserId t = Val u \<and> status t \<noteq> COMPLETED \<and> startDate t \<le> i \<and> i \<le> endDate t)"

definition noOverlapInvariant :: "Task list \<Rightarrow> bool" where
  "noOverlapInvariant ts = (\<forall>u i. length (filter (\<lambda>t. covers t u i) ts) \<le> 1)"


section \<open>Example data\<close>

text \<open>An ASCII string as code units.\<close>

definition ascii :: "string \<Rightarrow> jsstring" where
  "ascii s = map of_char s"

text \<open>
  A clock at 2030-01-01T00:00Z and a parser that knows three ISO date strings of
  2030-01-10, with their time values in milliseconds; no queue or gateway failures.
\<close>

definition exEnv :: env where
  "exEnv = \<lparr> now = 1893456000000,
             parseDate = (\<lambda>s. if s = ascii ''2030-01-10T09:00:00.000Z'' then Some 1894266000000
                               else if s = ascii ''2030-01-10T17:00:00.000Z'' then Some 1894294800000
                               else if s = ascii ''2030-01-10T19:00:00.000Z'' then Some 1894302000000
                               else None),
             queueFails = (\<lambda>_. False), notifyFails = (\<lambda>_ _. False) \<rparr>"

text \<open>
  Two users with one task each: task 1 of user 1 from 09:00 to 17:00, task 2 of user 2
  from 17:00 to 19:00, so that the windows touch at 17:00.
\<close>

definition exT1 :: Task where
  "exT1 = \<lparr> taskId = 1, title = ascii ''T1'', description = Null, assignedUserId = Val 1,
            assignedById = Val 9, status = IN_PROGRESS,
            startDate = 1894266000000, endDate = 1894294800000 \<rparr>"

definition exT2 :: Task where
  "exT2 = \<lparr> taskId = 2, title = ascii ''T2'', description = Null, assignedUserId = Val 2,
            assignedById = Val 9, status = IN_PROGRESS,
            startDate = 1894294800000, endDate = 1894302000000 \<rparr>"

definition exState :: "Task list \<Rightarrow> state" where
  "exState ts = \<lparr> tasks = ts, nextId = 10, jobs = [], notified = [], errorLog = [] \<rparr>"

text \<open>
  A creation request with surrounding white space in title and description, over the
  window from 17:00 to 19:00, and an update request that carries only a status.
\<close>

definition exCreateDto :: CreateTaskDto where
  "exCreateDto = \<lparr> cTitle = Val (ascii '' Fix ''), cDescription = Val (ascii ''login ''),
                   cStartDate = Val (ascii ''2030-01-10T17:00:00.000Z''),
                   cEndDate = Val (ascii ''2030-01-10T19:00:00.000Z''),
                   cAssignedUserId = Val 2, cStatus = Undefined \<rparr>"

definition exStatusOnly :: "TaskStatus \<Rightarrow> UpdateTaskDto" where
  "exStatusOnly st = \<lparr> uTitle = None, uDescription = None, uStartDate = None, uEndDate = None,
                       uAssignedUserId = None, uStatus = Some (Val st) \<rparr>"

text \<open>The task that the creation request above produces in a store whose next id is 10.\<close>

definition exT3 :: Task where
  "exT3 = \<lparr> taskId = 10, title = ascii '' Fix '', description = Val (ascii ''login ''),
            assignedUserId = Val 2, assignedById = Val 9, status = IN_PROGRESS,
            startDate = 1894294800000, endDate = 1894302000000 \<rparr>"


section \<open>Theorems\<close>

lemma filter_nonempty_iff: "(length (filter P xs) > 0) = (\<exists>x \<in> set xs. P x)"
  by (induction xs) auto

text \<open>
  What the query computes, on any table: the excluded id is disregarded when it is 0.
\<close>

lemma checkOverlap_exact:
  "checkOverlap ts (Val userId) (Some sd) (Some ed) excludeTaskId =
     Inr (\<exists>t \<in> set ts. assignedUserId t = Val userId
            \<and> status t \<noteq> COMPLETED
            \<and> (\<forall>x. excludeTaskId = Some x \<longrightarrow> x \<noteq> 0 \<longrightarrow> taskId t \<noteq> x)
            \<and> startDate t \<le> ed \<and> endDate t \<ge> sd)"
proof -
  have "overlapRow (Val userId) sd ed excludeTaskId t =
          (assignedUserId t = Val userId \<and> status t \<noteq> COMPLETED
           \<and> (\<forall>x. excludeTaskId = Some x \<longrightarrow> x \<noteq> 0 \<longrightarrow> taskId t \<noteq> x)
           \<and> startDate t \<le> ed \<and> endDate t \<ge> sd)" for t
    by (cases excludeTaskId) (auto simp: overlapRow_def truthyId_def isVal_def)
  then show ?thesis
    unfolding checkOverlap_def hasOverlappingTasks_def filter_nonempty_iff by simp
qed

text \<open>
  C1. On a table whose primary keys are the store's generated ids (never 0), for every
  user, every proposed window and every optional excluded id, \<open>checkOverlap\<close> returns
  true exactly when some task assigned to that user is not COMPLETED, is not the
  excluded task when one is given, and satisfies the boundary-inclusive test
  \<open>task.startDate \<le> endDate \<and> task.endDate \<ge> startDate\<close>.
\<close>

theorem checkOverlap_iff:
  assumes "\<forall>t \<in> set ts. taskId t \<noteq> 0"
  shows "checkOverlap ts (Val userId) (Some sd) (Some ed) excludeTaskId =
           Inr (\<exists>t \<in> set ts. assignedUserId t = Val userId
                  \<and> status t \<noteq> COMPLETED
                  \<and> (\<forall>x. excludeTaskId = Some x \<longrightarrow> taskId t \<noteq> x)
                  \<and> startDate t \<le> ed \<and> endDate t \<ge> sd)"
proof -
  have "(\<forall>x. excludeTaskId = Some x \<longrightarrow> x \<noteq> 0 \<longrightarrow> taskId t \<noteq> x)
          = (\<forall>x. excludeTaskId = Some x \<longrightarrow> taskId t \<noteq> x)" if "t \<in> set ts" for t
    using assms that by auto
  then show ?thesis
    unfolding checkOverlap_exact by (simp cong: conj_cong bex_cong)
qed

theorem checkOverlap_iff_witness:
  "taskId exT1 \<noteq> 0
   \<and> checkOverlap [exT1] (Val 1) (Some 1894294800000) (Some 1894302000000) None = Inr True
   \<and> checkOverlap [exT1] (Val 1) (Some 1894294800000) (Some 1894302000000) (Some 1) = Inr False
   \<and> checkOverlap [exT1\<lparr>status := COMPLETED\<rparr>] (Val 1) (Some 1894294800000)
        (Some 1894302000000) None = Inr False"
  using checkOverlap_iff [of "[exT1]" 1 1894294800000 1894302000000 None]
        checkOverlap_iff [of "[exT1]" 1 1894294800000 1894302000000 "Some 1"]
        checkOverlap_iff [of "[exT1\<lparr>status := COMPLETED\<rparr>]" 1 1894294800000 1894302000000 None]
  by (simp add: exT1_def)

subsection \<open>Repository facts\<close>

lemma findOne_Some:
  "findOne ts k = Some r \<Longrightarrow> r \<in> set ts \<and> taskId r = k"
  by (auto simp: findOne_def find_Some_iff)

lemma find_map_key:
  assumes "\<And>r. taskId (g r) = taskId r"
  shows "find (\<lambda>r. taskId r = k) (map (\<lambda>r. if taskId r = k then g r else r) ts)
           = map_option g (find (\<lambda>r. taskId r = k) ts)"
  using assms by (induction ts) auto

lemma findOne_save:
  assumes "findOne ts (taskId t) = Some row0"
  shows "findOne (save ts t) (taskId t) = Some (mergeRow row0 t)"
proof -
  have "taskId (mergeRow r t) = taskId r" for r by (simp add: mergeRow_def)
  from find_map_key [of "\<lambda>r. mergeRow r t" "taskId t" ts, OF this] assms
  show ?thesis by (simp add: save_def findOne_def)
qed

subsection \<open>Reassignment\<close>

lemmas js_defs =
  readProp_def truthyStr_def truthyNum_def truthyId_def isVal_def optTrim_def
  statusOrDefault_def toColumn_def keepUndefined_def newDate_def dateGe_def dateLt_def

lemmas example_defs =
  exEnv_def exT1_def exT2_def exT3_def exState_def exCreateDto_def exStatusOnly_def ascii_def

lemmas reassign_defs =
  reassign_def validateTaskReassignment_def prepareTaskReassignment_def findOne_def
  validateTaskReassignmentData_def checkOverlap_def
  hasOverlappingTasks_def overlapRow_def applyTaskReassignment_def
  buildTaskEntityForReassignment_def saveAndReloadTask_def objectAssign_def save_def
  mergeRow_def queueAvailabilityUpdate_def reloadTaskWithRelations_def
  notifyTaskReassigned_def tryNotify_def notifyUser_def formatTaskForNotification_def Let_def

text \<open>
  C3. The claim: a successful reassignment to a different user enqueues a recompute job
  for the new assignee and one for the previous assignee. The code: task 1 of user 1 is
  reassigned to user 2 with no conflict; the operation succeeds and the only job handed
  to the queue is the one for user 2. \<^verbatim>\<open>oldAssignedUserId\<close> is read from the entity
  after \<^verbatim>\<open>applyTaskReassignment\<close> has overwritten its assignee, so the test
  \<^verbatim>\<open>oldAssignedUserId !== savedTask.assignedUserId\<close> never holds.
\<close>

theorem reassign_no_job_for_previous_assignee:
  "assignedUserId exT1 = Val 1
   \<and> fst (reassign exEnv 1 \<lparr> rAssignedUserId = Val 2 \<rparr> (Val 9) (exState [exT1]))
       = Inr (exT1\<lparr> assignedUserId := Val 2 \<rparr>)
   \<and> jobs (snd (reassign exEnv 1 \<lparr> rAssignedUserId = Val 2 \<rparr> (Val 9) (exState [exT1])))
       = [(''update-availability'', 2)]"
  by (simp add: reassign_defs js_defs example_defs)

text \<open>
  C4. The claim: a successful reassignment to a different user dispatches a
  \<^verbatim>\<open>task:reassigned\<close> notification to the new assignee. The code: on the same input the
  operation succeeds and the gateway is never called, because \<^verbatim>\<open>notifyTaskReassigned\<close>
  receives the new assignee as \<^verbatim>\<open>oldAssignedUserId\<close> and returns early.
\<close>

theorem reassign_sends_no_notification:
  "assignedUserId exT1 = Val 1
   \<and> fst (reassign exEnv 1 \<lparr> rAssignedUserId = Val 2 \<rparr> (Val 9) (exState [exT1]))
       = Inr (exT1\<lparr> assignedUserId := Val 2 \<rparr>)
   \<and> notified (snd (reassign exEnv 1 \<lparr> rAssignedUserId = Val 2 \<rparr> (Val 9) (exState [exT1]))) = []"
  by (simp add: reassign_defs js_defs example_defs)

text \<open>
  C5. If the task exists and the reassignment names a user who has another task that
  is not COMPLETED and whose window meets the task's window (boundaries included), the
  operation fails with the overlap error and returns the state it was given: no row is
  written, so the task keeps its assignee, and no job or notification is issued. The
  code raises the overlap error as a \<^verbatim>\<open>TaskValidationException\<close> carrying the overlap
  message.
\<close>

theorem reassign_conflict_leaves_state:
  assumes "findOne (tasks s) tid = Some task"
    and "rAssignedUserId dto = Val u" and "u \<noteq> 0"
    and "other \<in> set (tasks s)" and "taskId other \<noteq> tid"
    and "assignedUserId other = Val u" and "status other \<noteq> COMPLETED"
    and "startDate other \<le> endDate task" and "endDate other \<ge> startDate task"
  shows "reassign e tid dto currentUserId s = (Inl (TaskValidationException overlapMessage), s)"
proof -
  have "overlapRow (Val u) (startDate task) (endDate task) (Some tid) other"
    using assms by (auto simp: overlapRow_def isVal_def)
  with assms(4)
  have "checkOverlap (tasks s) (Val u) (Some (startDate task)) (Some (endDate task)) (Some tid)
          = Inr True"
    unfolding checkOverlap_def hasOverlappingTasks_def filter_nonempty_iff by auto
  with assms(1-3) show ?thesis
    by (simp add: reassign_def validateTaskReassignment_def prepareTaskReassignment_def
          validateTaskReassignmentData_def truthyNum_def)
qed

theorem reassign_conflict_leaves_state_witness:
  "findOne (tasks (exState [exT1, exT2])) 1 = Some exT1
   \<and> assignedUserId exT1 = Val 1
   \<and> exT2 \<in> set (tasks (exState [exT1, exT2])) \<and> taskId exT2 \<noteq> 1
   \<and> assignedUserId exT2 = Val 2 \<and> status exT2 \<noteq> COMPLETED
   \<and> startDate exT2 \<le> endDate exT1 \<and> endDate exT2 \<ge> startDate exT1
   \<and> reassign exEnv 1 \<lparr> rAssignedUserId = Val 2 \<rparr> (Val 9) (exState [exT1, exT2])
       = (Inl (TaskValidationException overlapMessage), exState [exT1, exT2])"
  using reassign_conflict_leaves_state
          [of "exState [exT1, exT2]" 1 exT1 "\<lparr> rAssignedUserId = Val 2 \<rparr>" 2 exT2 exEnv "Val 9"]
  by (simp add: example_defs findOne_def)

subsection \<open>Creation\<close>

lemmas create_defs =
  create_def validateTaskCreation_def prepareTaskCreation_def validateTaskCreationData_def
  validateRequiredFields_def validateDateRange_def
  trim_def isSpace_def checkOverlap_def hasOverlappingTasks_def
  overlapRow_def prepareTaskForCreation_def buildTaskEntityForCreation_def repoCreate_def
  queueAvailabilityUpdate_def reloadTaskWithRelations_def findOne_def notifyTaskCreated_def
  tryNotify_def notifyUser_def formatTaskForNotification_def Let_def





text \<open>
  A title made of a NO-BREAK SPACE, an EM SPACE and a BYTE ORDER MARK is rejected as a
  missing title.
\<close>

lemma validateTaskCreationData_unicode_space:
  "validateTaskCreationData exEnv (exCreateDto\<lparr> cTitle := Val [0xA0, 0x2003, 0xFEFF] \<rparr>)
     = Inl (TaskValidationException ''Task title is required'')"
  by (simp add: create_defs js_defs example_defs)

text \<open>
  C10. The claim: the field-set that \<open>create\<close> persists is the output of
  \<open>prepareTaskForCreation\<close>, with title and description trimmed. The code: for the
  title " Fix " and the description "login " \<open>prepareTaskForCreation\<close> yields "Fix" and
  "login", but the row written (and returned, and sent in the notification) holds the
  untrimmed strings. \<open>create\<close> persists the output of \<open>buildTaskEntityForCreation\<close>,
  which spreads the request unchanged; the field-set that the domain service prepares
  is dropped by \<open>validateTaskCreation\<close>.
\<close>

theorem create_persists_untrimmed_fields:
  "prepareTaskForCreation exEnv exCreateDto (Val 9)
     = Inr \<lparr> pTitle = Some (Val (ascii ''Fix'')), pDescription = Some (Val (ascii ''login'')),
             pStatus = Some (Val IN_PROGRESS),
             pStartDate = Some (Some 1894294800000), pEndDate = Some (Some 1894302000000),
             pAssignedUserId = Some (Val 2), pAssignedById = Some (Val 9) \<rparr>
   \<and> create exEnv exCreateDto (Val 9) (exState [exT1])
     = (Inr \<lparr> taskId = 10, title = ascii '' Fix '', description = Val (ascii ''login ''),
               assignedUserId = Val 2, assignedById = Val 9, status = IN_PROGRESS,
               startDate = 1894294800000, endDate = 1894302000000 \<rparr>,
        \<lparr> tasks = [exT1, \<lparr> taskId = 10, title = ascii '' Fix '',
               description = Val (ascii ''login ''),
               assignedUserId = Val 2, assignedById = Val 9, status = IN_PROGRESS,
               startDate = 1894294800000, endDate = 1894302000000 \<rparr>],
          nextId = 11, jobs = [(''update-availability'', 2)],
          notified = [(2, ''task:created'',
                       \<lparr> sId = 10, sTitle = ascii '' Fix '', sDescription = Val (ascii ''login ''),
                         sStartDate = 1894294800000, sEndDate = 1894302000000,
                         sStatus = IN_PROGRESS \<rparr>)],
          errorLog = [] \<rparr>)"
  by (simp add: create_defs js_defs example_defs)

subsection \<open>Update\<close>

lemmas update_defs =
  update_def servicePrepareTaskUpdate_def validateTaskUpdate_def prepareTaskUpdate_def
  validateTaskUpdatePermissions_def validateUserCanOnlyUpdateStatus_def objectKeys_def
  requiresOverlapValidation_def calculateEffectiveDateRange_def prepareTaskForUpdate_def
  buildTaskEntityForUpdate_def executeTaskUpdate_def saveAndReloadTask_def objectAssign_def
  save_def mergeRow_def handleTaskUpdateSideEffects_def handleAvailabilityUpdates_def
  handleUpdateNotifications_def notifyTaskCompleted_def
  checkOverlap_def hasOverlappingTasks_def
  overlapRow_def queueAvailabilityUpdate_def reloadTaskWithRelations_def findOne_def
  tryNotify_def notifyUser_def formatTaskForNotification_def Let_def

text \<open>
  C7. \<open>validateTaskUpdatePermissions\<close> raises a PermissionError exactly when the
  caller's role is USER and either the task's assignee differs from the caller's id
  (as \<^verbatim>\<open>!==\<close> compares them, so \<^verbatim>\<open>null\<close> differs from \<^verbatim>\<open>undefined\<close>) or the request
  has a key other than \<open>status\<close>, whatever the value under that key, \<^verbatim>\<open>undefined\<close> and
  \<^verbatim>\<open>null\<close> included; in every other case, so for ADMIN, MANAGER and an absent role, it
  returns normally.
\<close>

theorem validateTaskUpdatePermissions_iff:
  "((\<exists>msg. validateTaskUpdatePermissions task dto role uid = Inl (TaskPermissionException msg))
      = (role = Some USER
         \<and> (assignedUserId task \<noteq> uid \<or> uTitle dto \<noteq> None \<or> uDescription dto \<noteq> None
            \<or> uStartDate dto \<noteq> None \<or> uEndDate dto \<noteq> None \<or> uAssignedUserId dto \<noteq> None)))
   \<and> ((validateTaskUpdatePermissions task dto role uid = Inr ())
      = (\<not> (role = Some USER
         \<and> (assignedUserId task \<noteq> uid \<or> uTitle dto \<noteq> None \<or> uDescription dto \<noteq> None
            \<or> uStartDate dto \<noteq> None \<or> uEndDate dto \<noteq> None \<or> uAssignedUserId dto \<noteq> None))))"
  by (auto simp: validateTaskUpdatePermissions_def validateUserCanOnlyUpdateStatus_def
        objectKeys_def Let_def)

theorem validateTaskUpdatePermissions_iff_witness:
  "validateTaskUpdatePermissions exT1 (exStatusOnly COMPLETED) (Some USER) (Val 1) = Inr ()
   \<and> (\<exists>msg. validateTaskUpdatePermissions exT1 (exStatusOnly COMPLETED) (Some USER) (Val 2)
              = Inl (TaskPermissionException msg))
   \<and> (\<exists>msg. validateTaskUpdatePermissions exT1
                ((exStatusOnly COMPLETED)\<lparr> uTitle := Some (Val (ascii ''New'')) \<rparr>)
                (Some USER) (Val 1)
              = Inl (TaskPermissionException msg))
   \<and> (\<exists>msg. validateTaskUpdatePermissions exT1
                ((exStatusOnly COMPLETED)\<lparr> uTitle := Some Undefined \<rparr>) (Some USER) (Val 1)
              = Inl (TaskPermissionException msg))
   \<and> (\<exists>msg. validateTaskUpdatePermissions exT1
                ((exStatusOnly COMPLETED)\<lparr> uTitle := Some Null \<rparr>) (Some USER) (Val 1)
              = Inl (TaskPermissionException msg))
   \<and> (\<exists>msg. validateTaskUpdatePermissions (exT1\<lparr> assignedUserId := Null \<rparr>)
                (exStatusOnly COMPLETED) (Some USER) Undefined
              = Inl (TaskPermissionException msg))
   \<and> validateTaskUpdatePermissions exT1
        ((exStatusOnly COMPLETED)\<lparr> uTitle := Some (Val (ascii ''New'')) \<rparr>)
        (Some MANAGER) (Val 2) = Inr ()
   \<and> validateTaskUpdatePermissions exT1
        ((exStatusOnly COMPLETED)\<lparr> uTitle := Some (Val (ascii ''New'')) \<rparr>) None Undefined = Inr ()"
  using validateTaskUpdatePermissions_iff
          [of exT1 "exStatusOnly COMPLETED" "Some USER" "Val 1"]
        validateTaskUpdatePermissions_iff
          [of exT1 "exStatusOnly COMPLETED" "Some USER" "Val 2"]
        validateTaskUpdatePermissions_iff
          [of exT1 "(exStatusOnly COMPLETED)\<lparr> uTitle := Some (Val (ascii ''New'')) \<rparr>"
              "Some USER" "Val 1"]
        validateTaskUpdatePermissions_iff
          [of exT1 "(exStatusOnly COMPLETED)\<lparr> uTitle := Some Undefined \<rparr>" "Some USER" "Val 1"]
        validateTaskUpdatePermissions_iff
          [of exT1 "(exStatusOnly COMPLETED)\<lparr> uTitle := Some Null \<rparr>" "Some USER" "Val 1"]
        validateTaskUpdatePermissions_iff
          [of "exT1\<lparr> assignedUserId := Null \<rparr>" "exStatusOnly COMPLETED" "Some USER" Undefined]
        validateTaskUpdatePermissions_iff
          [of exT1 "(exStatusOnly COMPLETED)\<lparr> uTitle := Some (Val (ascii ''New'')) \<rparr>"
              "Some MANAGER" "Val 2"]
        validateTaskUpdatePermissions_iff
          [of exT1 "(exStatusOnly COMPLETED)\<lparr> uTitle := Some (Val (ascii ''New'')) \<rparr>"
              None Undefined]
  by (simp add: example_defs)

text \<open>
  The message names the keys the request has besides \<open>status\<close>, also one whose value
  is \<^verbatim>\<open>undefined\<close>.
\<close>

lemma validateTaskUpdatePermissions_undefined_key:
  "validateTaskUpdatePermissions exT1
     ((exStatusOnly COMPLETED)\<lparr> uTitle := Some Undefined \<rparr>) (Some USER) (Val 1)
   = Inl (TaskPermissionException
            ''Regular users can only update: status. Attempted to update: title'')"
  by (simp add: validateTaskUpdatePermissions_def validateUserCanOnlyUpdateStatus_def
        objectKeys_def Let_def example_defs)

text \<open>
  C8, as stated, fails in two ways. A task that has no assigner is moved from
  IN_PROGRESS to COMPLETED by its assignee: the update succeeds and no notification is
  dispatched. And a task that user 9 assigned is, in one request of administrator 3,
  completed and given to user 2: the update stamps the caller as the assigner before
  the notification is built, so the \<^verbatim>\<open>task:completed\<close> call goes to user 3 and none
  goes to the previous assigner 9.
\<close>

theorem update_completed_counterexample:
  "findOne (tasks (exState [exT1\<lparr> assignedById := Null \<rparr>])) 1
     = Some (exT1\<lparr> assignedById := Null \<rparr>)
   \<and> status (exT1\<lparr> assignedById := Null \<rparr>) = IN_PROGRESS
   \<and> uStatus (exStatusOnly COMPLETED) = Some (Val COMPLETED)
   \<and> update exEnv 1 (exStatusOnly COMPLETED) (Val 1) (Some USER)
        (exState [exT1\<lparr> assignedById := Null \<rparr>])
       = (Inr (exT1\<lparr> assignedById := Null, status := COMPLETED \<rparr>),
          exState [exT1\<lparr> assignedById := Null, status := COMPLETED \<rparr>])
   \<and> findOne (tasks (exState [exT1])) 1 = Some exT1
   \<and> status exT1 = IN_PROGRESS \<and> assignedById exT1 = Val 9
   \<and> update exEnv 1 ((exStatusOnly COMPLETED)\<lparr> uAssignedUserId := Some (Val 2) \<rparr>)
        (Val 3) (Some ADMIN) (exState [exT1])
       = (Inr (exT1\<lparr> assignedUserId := Val 2, assignedById := Val 3, status := COMPLETED \<rparr>),
          \<lparr> tasks = [exT1\<lparr> assignedUserId := Val 2, assignedById := Val 3,
                           status := COMPLETED \<rparr>],
            nextId = 10,
            jobs = [(''update-availability'', 2), (''update-availability'', 1)],
            notified = [(3, ''task:completed'',
                         formatTaskForNotification
                           (exT1\<lparr> assignedUserId := Val 2, assignedById := Val 3,
                                  status := COMPLETED \<rparr>))],
            errorLog = [] \<rparr>)"
  by (simp add: update_defs js_defs example_defs)

subsection \<open>Frame lemmas\<close>

lemma queueAvailabilityUpdate_frame:
  "tasks (queueAvailabilityUpdate e u s) = tasks s"
  "nextId (queueAvailabilityUpdate e u s) = nextId s"
  "notified (queueAvailabilityUpdate e u s) = notified s"
  by (simp_all add: queueAvailabilityUpdate_def Let_def split: nullable.splits)

lemma tryNotify_frame:
  "tasks (tryNotify e u ev t m s) = tasks s"
  "nextId (tryNotify e u ev t m s) = nextId s"
  "jobs (tryNotify e u ev t m s) = jobs s"
  "notified (tryNotify e u ev t m s) = notified s @ [(u, ev, formatTaskForNotification t)]"
  by (cases "notifyFails e u ev"; simp add: tryNotify_def notifyUser_def)+

lemma handleAvailabilityUpdates_frame:
  "tasks (handleAvailabilityUpdates e dto old new s) = tasks s"
  "notified (handleAvailabilityUpdates e dto old new s) = notified s"
  by (simp_all add: handleAvailabilityUpdates_def Let_def queueAvailabilityUpdate_frame)

lemma executeTaskUpdate_frame:
  "executeTaskUpdate ctx s = (r, s1) \<Longrightarrow> notified s1 = notified s \<and> jobs s1 = jobs s"
  by (auto simp: executeTaskUpdate_def Let_def split: sum.splits prod.splits)

lemma servicePrepareTaskUpdate_oldStatus:
  assumes "servicePrepareTaskUpdate e ts tid dto uid role = Inr ctx"
    and "findOne ts tid = Some old"
  shows "ctxOldStatus ctx = status old"
  using assms
  by (auto simp: servicePrepareTaskUpdate_def validateTaskUpdate_def prepareTaskUpdate_def Let_def
        split: sum.splits prod.splits if_splits)

text \<open>
  The task a successful update returns is the row it loaded, merged with the entity
  that \<^verbatim>\<open>Object.assign\<close> produced from the patch.
\<close>

lemma update_result_row:
  assumes "update e tid dto uid role s = (Inr r, s')"
    and "findOne (tasks s) tid = Some old"
  shows "\<exists>t. objectAssign (fst (buildTaskEntityForUpdate e old dto uid))
                (snd (buildTaskEntityForUpdate e old dto uid)) = Some t
             \<and> r = mergeRow old t"
proof -
  from assms(1) obtain ctx s1 where
    sp: "servicePrepareTaskUpdate e (tasks s) tid dto uid role = Inr ctx" and
    ex: "executeTaskUpdate ctx s = (Inr r, s1)"
    by (auto simp: update_def split: sum.splits prod.splits)
  from sp assms(2) have
    bt: "ctxTask ctx = fst (buildTaskEntityForUpdate e old dto uid)"
        "ctxUpdates ctx = snd (buildTaskEntityForUpdate e old dto uid)"
    by (auto simp: servicePrepareTaskUpdate_def validateTaskUpdate_def prepareTaskUpdate_def
          Let_def split: sum.splits prod.splits if_splits)
  from ex obtain t where
    oa: "objectAssign (ctxTask ctx) (ctxUpdates ctx) = Some t" and
    rl: "reloadTaskWithRelations (save (tasks s) t) (taskId t) ''updated'' = Inr r"
    by (auto simp: executeTaskUpdate_def saveAndReloadTask_def Let_def
          split: sum.splits prod.splits option.splits)
  have "taskId (ctxTask ctx) = tid"
    using findOne_Some [OF assms(2)] unfolding bt
    by (simp add: buildTaskEntityForUpdate_def Let_def)
  with oa have tid: "taskId t = tid"
    by (auto simp: objectAssign_def split: if_splits)
  from findOne_save [of "tasks s" t old] assms(2) tid rl have "r = mergeRow old t"
    by (simp add: reloadTaskWithRelations_def)
  with oa show ?thesis unfolding bt by blast
qed

text \<open>
  C8, amended. For every update that succeeds, the gateway calls it adds are exactly
  these: one \<^verbatim>\<open>task:completed\<close> call, addressed to the \<open>assignedById\<close> of the task as
  stored after the update, when the request sets the status to COMPLETED, the stored
  status before the update was not COMPLETED, and that \<open>assignedById\<close> is a number
  other than 0; and none otherwise. So other field changes, and COMPLETED set on a
  completed task, dispatch nothing. The \<open>assignedById\<close> stored after the update is the
  caller's id when the same request names a non-zero assignee that differs from the
  stored one and the caller's id is not \<^verbatim>\<open>undefined\<close>; in every other case it is the
  previous assigner.
\<close>

theorem update_completed_notification:
  assumes "update e tid dto uid role s = (Inr r, s')"
    and "findOne (tasks s) tid = Some old"
  shows "notified s' = notified s @
           (if readProp (uStatus dto) = Val COMPLETED \<and> status old \<noteq> COMPLETED
            then (case assignedById r of
                    Val a \<Rightarrow> if a = 0 then []
                             else [(a, ''task:completed'', formatTaskForNotification r)]
                  | _ \<Rightarrow> [])
            else [])
         \<and> assignedById r =
             (if truthyNum (readProp (uAssignedUserId dto))
                 \<and> readProp (uAssignedUserId dto) \<noteq> assignedUserId old \<and> uid \<noteq> Undefined
              then uid else assignedById old)"
proof -
  from assms(1) obtain ctx s1 where
    sp: "servicePrepareTaskUpdate e (tasks s) tid dto uid role = Inr ctx" and
    ex: "executeTaskUpdate ctx s = (Inr r, s1)" and
    s': "s' = handleTaskUpdateSideEffects e ctx r dto s1"
    by (auto simp: update_def split: sum.splits prod.splits)
  have old: "ctxOldStatus ctx = status old"
    using servicePrepareTaskUpdate_oldStatus [OF sp assms(2)] .
  have n1: "notified s1 = notified s"
    using executeTaskUpdate_frame [OF ex] by simp
  have a: "notified s' = notified s @
           (if readProp (uStatus dto) = Val COMPLETED \<and> status old \<noteq> COMPLETED
            then (case assignedById r of
                    Val a \<Rightarrow> if a = 0 then []
                             else [(a, ''task:completed'', formatTaskForNotification r)]
                  | _ \<Rightarrow> [])
            else [])"
    unfolding s' handleTaskUpdateSideEffects_def handleUpdateNotifications_def
      notifyTaskCompleted_def
    by (simp add: old n1 handleAvailabilityUpdates_frame tryNotify_frame split: nullable.splits)
  from update_result_row [OF assms] obtain t where
    oa: "objectAssign (fst (buildTaskEntityForUpdate e old dto uid))
           (snd (buildTaskEntityForUpdate e old dto uid)) = Some t" and
    r: "r = mergeRow old t"
    by blast
  from oa have "assignedById t =
             (if truthyNum (readProp (uAssignedUserId dto))
                 \<and> readProp (uAssignedUserId dto) \<noteq> assignedUserId old
              then uid else assignedById old)"
    by (auto simp: objectAssign_def buildTaskEntityForUpdate_def Let_def split: if_splits)
  then have b: "assignedById r =
             (if truthyNum (readProp (uAssignedUserId dto))
                 \<and> readProp (uAssignedUserId dto) \<noteq> assignedUserId old \<and> uid \<noteq> Undefined
              then uid else assignedById old)"
    unfolding r by (cases uid) (simp_all add: mergeRow_def keepUndefined_def split: nullable.splits)
  from a b show ?thesis by (rule conjI)
qed

theorem update_completed_notification_witness:
  "findOne (tasks (exState [exT1])) 1 = Some exT1
   \<and> update exEnv 1 (exStatusOnly COMPLETED) (Val 1) (Some USER) (exState [exT1])
       = (Inr (exT1\<lparr> status := COMPLETED \<rparr>),
          (exState [exT1\<lparr> status := COMPLETED \<rparr>])
            \<lparr> notified := [(9, ''task:completed'',
                            formatTaskForNotification (exT1\<lparr> status := COMPLETED \<rparr>))] \<rparr>)
   \<and> notified ((exState [exT1\<lparr> status := COMPLETED \<rparr>])
            \<lparr> notified := [(9, ''task:completed'',
                            formatTaskForNotification (exT1\<lparr> status := COMPLETED \<rparr>))] \<rparr>)
       = notified (exState [exT1])
         @ [(9, ''task:completed'', formatTaskForNotification (exT1\<lparr> status := COMPLETED \<rparr>))]
   \<and> assignedById (exT1\<lparr> status := COMPLETED \<rparr>) = assignedById exT1"
proof -
  have f: "findOne (tasks (exState [exT1])) 1 = Some exT1"
    by (simp add: findOne_def example_defs)
  have u: "update exEnv 1 (exStatusOnly COMPLETED) (Val 1) (Some USER) (exState [exT1])
       = (Inr (exT1\<lparr> status := COMPLETED \<rparr>),
          (exState [exT1\<lparr> status := COMPLETED \<rparr>])
            \<lparr> notified := [(9, ''task:completed'',
                            formatTaskForNotification (exT1\<lparr> status := COMPLETED \<rparr>))] \<rparr>)"
    by (simp add: update_defs js_defs example_defs)
  from update_completed_notification [OF u f] f u show ?thesis
    by (simp add: example_defs readProp_def truthyNum_def)
qed

subsection \<open>Side-effect failures\<close>












lemma executeTaskUpdate_obs:
  "executeTaskUpdate ctx s = (r, s1) \<Longrightarrow> jobs s1 = jobs s \<and> notified s1 = notified s \<and> nextId s1 = nextId s"
  by (auto simp: executeTaskUpdate_def Let_def split: sum.splits prod.splits)










subsection \<open>The invariant under update\<close>

text \<open>
  C2. The claim: every operation preserves the no-overlap invariant. The code: user 2
  has a COMPLETED task from 17:00 to 19:00; a second task over the same window is
  created for user 2, which succeeds because completed tasks do not count, and the
  invariant holds. The assignee then sets the first task back to IN_PROGRESS. A request
  that carries only a status does not pass \<open>requiresOverlapValidation\<close>, so no overlap
  check runs; the update succeeds and user 2 now has two active tasks covering 17:00.
\<close>

theorem update_reactivation_breaks_invariant:
  "tasks (snd (create exEnv exCreateDto (Val 9) (exState [exT2\<lparr> status := COMPLETED \<rparr>])))
     = [exT2\<lparr> status := COMPLETED \<rparr>, exT3]
   \<and> noOverlapInvariant [exT2\<lparr> status := COMPLETED \<rparr>, exT3]
   \<and> update exEnv 2 (exStatusOnly IN_PROGRESS) (Val 2) (Some USER)
        (exState [exT2\<lparr> status := COMPLETED \<rparr>, exT3])
       = (Inr exT2, exState [exT2, exT3])
   \<and> \<not> noOverlapInvariant [exT2, exT3]"
proof -
  have a: "tasks (snd (create exEnv exCreateDto (Val 9) (exState [exT2\<lparr> status := COMPLETED \<rparr>])))
     = [exT2\<lparr> status := COMPLETED \<rparr>, exT3]"
    by (simp add: create_defs js_defs example_defs)
  have b: "noOverlapInvariant [exT2\<lparr> status := COMPLETED \<rparr>, exT3]"
    by (simp add: noOverlapInvariant_def covers_def)
  have c: "update exEnv 2 (exStatusOnly IN_PROGRESS) (Val 2) (Some USER)
        (exState [exT2\<lparr> status := COMPLETED \<rparr>, exT3])
       = (Inr exT2, exState [exT2, exT3])"
    by (simp add: update_defs js_defs example_defs)
  have d: "\<not> noOverlapInvariant [exT2, exT3]"
  proof
    assume "noOverlapInvariant [exT2, exT3]"
    then have "length (filter (\<lambda>t. covers t 2 1894294800000) [exT2, exT3]) \<le> 1"
      unfolding noOverlapInvariant_def by blast
    then show False
      by (simp add: covers_def example_defs)
  qed
  from a b c d show ?thesis by blast
qed

subsection \<open>Where the invariant is preserved\<close>

text \<open>
  The remaining operations keep the invariant, so the update that sets a completed
  task back to IN_PROGRESS is the only way to break it. First three facts on filtered
  lists, then the effect of adding, removing and replacing one row.
\<close>

lemma length_filter_mono:
  "(\<And>x. x \<in> set xs \<Longrightarrow> P x \<Longrightarrow> Q x) \<Longrightarrow> length (filter P xs) \<le> length (filter Q xs)"
  by (induction xs) auto

lemma length_filter_key:
  "distinct (map f xs) \<Longrightarrow> length (filter (\<lambda>r. f r = k) xs) \<le> 1"
proof (induction xs)
  case Nil
  then show ?case by simp
next
  case (Cons a xs)
  show ?case
  proof (cases "f a = k")
    case True
    with Cons.prems have "\<forall>r \<in> set xs. f r \<noteq> k" by (auto simp: image_iff)
    then have "filter (\<lambda>r. f r = k) xs = []" by (simp add: filter_empty_conv)
    with True show ?thesis by simp
  next
    case False
    with Cons show ?thesis by simp
  qed
qed

lemma two_members_filter:
  assumes "x \<in> set xs" and "y \<in> set xs" and "x \<noteq> y" and "P x" and "P y"
  shows "2 \<le> length (filter P xs)"
proof -
  have "{x, y} \<subseteq> set (filter P xs)" using assms by auto
  then have "card {x, y} \<le> card (set (filter P xs))" by (intro card_mono) auto
  also have "\<dots> \<le> length (filter P xs)" by (rule card_length)
  finally show ?thesis using assms(3) by simp
qed

lemma append_row_preserves:
  assumes inv: "noOverlapInvariant ts"
    and free: "\<And>u i r. covers new u i \<Longrightarrow> r \<in> set ts \<Longrightarrow> \<not> covers r u i"
  shows "noOverlapInvariant (ts @ [new])"
  unfolding noOverlapInvariant_def
proof (intro allI)
  fix u i
  show "length (filter (\<lambda>t. covers t u i) (ts @ [new])) \<le> 1"
  proof (cases "covers new u i")
    case True
    then have "filter (\<lambda>t. covers t u i) ts = []"
      using free by (auto simp: filter_empty_conv)
    with True show ?thesis by simp
  next
    case False
    with inv show ?thesis by (simp add: noOverlapInvariant_def)
  qed
qed

lemma filter_rows_preserves:
  assumes "noOverlapInvariant ts"
  shows "noOverlapInvariant (filter Q ts)"
  unfolding noOverlapInvariant_def
proof (intro allI)
  fix u i
  have "length (filter (\<lambda>t. covers t u i) (filter Q ts))
          \<le> length (filter (\<lambda>t. covers t u i) ts)"
    unfolding filter_filter by (rule length_filter_mono) simp
  also have "\<dots> \<le> 1" using assms by (simp add: noOverlapInvariant_def)
  finally show "length (filter (\<lambda>t. covers t u i) (filter Q ts)) \<le> 1" .
qed

lemma replace_row_preserves:
  assumes inv: "noOverlapInvariant ts"
    and dist: "distinct (map taskId ts)"
    and free: "\<And>u i r. covers r' u i \<Longrightarrow> r \<in> set ts \<Longrightarrow> taskId r \<noteq> k \<Longrightarrow> \<not> covers r u i"
  shows "noOverlapInvariant (map (\<lambda>r. if taskId r = k then r' else r) ts)"
  unfolding noOverlapInvariant_def
proof (intro allI)
  fix u i
  let ?f = "\<lambda>r. if taskId r = k then r' else r"
  have len: "length (filter (\<lambda>t. covers t u i) (map ?f ts))
               = length (filter (\<lambda>r. covers (?f r) u i) ts)"
    by (simp add: filter_map comp_def)
  show "length (filter (\<lambda>t. covers t u i) (map ?f ts)) \<le> 1"
  proof (cases "covers r' u i")
    case True
    have "length (filter (\<lambda>r. covers (?f r) u i) ts) \<le> length (filter (\<lambda>r. taskId r = k) ts)"
      by (rule length_filter_mono) (use True free in \<open>auto split: if_splits\<close>)
    also have "\<dots> \<le> 1" by (rule length_filter_key [OF dist])
    finally show ?thesis by (simp only: len)
  next
    case False
    have "length (filter (\<lambda>r. covers (?f r) u i) ts) \<le> length (filter (\<lambda>r. covers r u i) ts)"
      by (rule length_filter_mono) (use False in \<open>auto split: if_splits\<close>)
    also have "\<dots> \<le> 1" using inv by (simp add: noOverlapInvariant_def)
    finally show ?thesis by (simp only: len)
  qed
qed

lemma notify_tasks:
  "tasks (notifyTaskCreated e t s) = tasks s"
  "tasks (notifyTaskCompleted e t s) = tasks s"
  "tasks (notifyTaskReassigned e t old s) = tasks s"
  "tasks (notifyTaskDeleted e t s) = tasks s"
  by (simp_all add: notifyTaskCreated_def notifyTaskCompleted_def notifyTaskReassigned_def
        notifyTaskDeleted_def tryNotify_frame split: nullable.splits)

lemma handleTaskUpdateSideEffects_tasks:
  "tasks (handleTaskUpdateSideEffects e ctx t dto s) = tasks s"
  by (simp add: handleTaskUpdateSideEffects_def handleUpdateNotifications_def notify_tasks
        handleAvailabilityUpdates_frame)

text \<open>
  A check that answered "no overlap" leaves no active row of that user meeting the
  window, apart from the excluded one.
\<close>

lemma checkOverlap_False_free:
  assumes "checkOverlap ts uo (Some sd) (Some ed) ex = Inr False"
    and "r \<in> set ts" and "assignedUserId r = uo" and "isVal uo"
    and "status r \<noteq> COMPLETED"
    and "truthyId ex \<longrightarrow> Some (taskId r) \<noteq> ex"
  shows "\<not> (startDate r \<le> ed \<and> endDate r \<ge> sd)"
proof -
  from assms(1) have "\<forall>x \<in> set ts. \<not> overlapRow uo sd ed ex x"
    unfolding checkOverlap_def hasOverlappingTasks_def filter_nonempty_iff by simp
  with assms(2) have "\<not> overlapRow uo sd ed ex r" by blast
  with assms(3-6) show ?thesis by (auto simp: overlapRow_def split: if_splits)
qed

lemma validateTaskCreation_Inr:
  assumes "validateTaskCreation e ts dto = Inr x"
  shows "\<exists>sd ed. newDate e (cStartDate dto) = Some sd \<and> newDate e (cEndDate dto) = Some ed
           \<and> checkOverlap ts (cAssignedUserId dto) (Some sd) (Some ed) None = Inr False"
  using assms
  by (auto simp: validateTaskCreation_def prepareTaskCreation_def checkOverlap_def
        hasOverlappingTasks_def split: sum.splits option.splits if_splits)

lemma create_preserves_invariant:
  assumes inv: "noOverlapInvariant (tasks s)"
  shows "noOverlapInvariant (tasks (snd (create e dto uid s)))"
proof (cases "validateTaskCreation e (tasks s) dto")
  case (Inl err)
  with inv show ?thesis by (simp add: create_def)
next
  case (Inr x)
  from validateTaskCreation_Inr [OF Inr] obtain sd ed where
    sd: "newDate e (cStartDate dto) = Some sd" and ed: "newDate e (cEndDate dto) = Some ed" and
    chk: "checkOverlap (tasks s) (cAssignedUserId dto) (Some sd) (Some ed) None = Inr False"
    by blast
  show ?thesis
  proof (cases "repoCreate (tasks s) (nextId s) (buildTaskEntityForCreation e dto uid)")
    case (Inl err)
    with Inr inv show ?thesis by (simp add: create_def)
  next
    case created: (Inr p)
    obtain new ts' nid' where p: "p = (new, ts', nid')" by (cases p) auto
    from created p have new: "ts' = tasks s @ [new]"
      "assignedUserId new = toColumn (cAssignedUserId dto)"
      "startDate new = sd" "endDate new = ed"
      by (auto simp: repoCreate_def buildTaskEntityForCreation_def sd ed Let_def readProp_def
            split: option.splits nullable.splits if_splits)
    have free: "\<not> covers r u i" if "covers new u i" and "r \<in> set (tasks s)" for u i r
    proof
      assume "covers r u i"
      with that new have "assignedUserId r = cAssignedUserId dto" "isVal (cAssignedUserId dto)"
        "status r \<noteq> COMPLETED" "startDate r \<le> ed \<and> endDate r \<ge> sd"
        by (auto simp: covers_def toColumn_def isVal_def split: nullable.splits)
      with checkOverlap_False_free [OF chk that(2)] show False
        by (simp add: truthyId_def)
    qed
    have "noOverlapInvariant ts'"
      unfolding new(1) by (rule append_row_preserves [OF inv free])
    moreover have "tasks (snd (create e dto uid s)) = ts'"
      using Inr created p
      by (simp add: create_def Let_def queueAvailabilityUpdate_frame notify_tasks
            split: sum.splits)
    ultimately show ?thesis by simp
  qed
qed

lemma remove_preserves_invariant:
  assumes "noOverlapInvariant (tasks s)"
  shows "noOverlapInvariant (tasks (snd (remove e tid s)))"
proof -
  have "tasks (snd (remove e tid s)) = tasks s
        \<or> (\<exists>Q. tasks (snd (remove e tid s)) = filter Q (tasks s))"
    by (auto simp: remove_def validateTaskDeletion_def repoDelete_def Let_def notify_tasks
          queueAvailabilityUpdate_frame split: option.splits)
  with assms show ?thesis by (auto intro: filter_rows_preserves)
qed

text \<open>
  On a table with distinct primary keys, saving a loaded entity replaces exactly the
  row it was loaded from.
\<close>

lemma save_existing:
  assumes f: "findOne ts k = Some row0" and dist: "distinct (map taskId ts)" and k: "taskId t = k"
  shows "save ts t = map (\<lambda>r. if taskId r = k then mergeRow row0 t else r) ts"
proof -
  have "r = row0" if "r \<in> set ts" and "taskId r = k" for r
  proof -
    from dist have "inj_on taskId (set ts)" by (simp add: distinct_map)
    with findOne_Some [OF f] that show ?thesis by (auto dest: inj_onD)
  qed
  then have "map (\<lambda>r. if taskId r = k then mergeRow r t else r) ts
               = map (\<lambda>r. if taskId r = k then mergeRow row0 t else r) ts"
    by (intro map_cong) auto
  with f k show ?thesis by (simp add: save_def)
qed

lemma reassign_preserves_invariant:
  assumes inv: "noOverlapInvariant (tasks s)" and dist: "distinct (map taskId (tasks s))"
  shows "noOverlapInvariant (tasks (snd (reassign e tid dto uid s)))"
proof (cases "validateTaskReassignment (tasks s) tid dto")
  case (Inl err)
  with inv show ?thesis by (simp add: reassign_def)
next
  case (Inr task)
  then obtain row0 where
    f: "findOne (tasks s) tid = Some row0" and
    task: "task = applyTaskReassignment row0 dto Undefined" and
    u: "truthyNum (rAssignedUserId dto)" and
    chk: "checkOverlap (tasks s) (rAssignedUserId dto) (Some (startDate row0))
            (Some (endDate row0)) (Some tid) = Inr False"
    by (auto simp: validateTaskReassignment_def prepareTaskReassignment_def
          validateTaskReassignmentData_def split: option.splits sum.splits if_splits)
  from u obtain n where n: "rAssignedUserId dto = Val n"
    by (cases "rAssignedUserId dto") (simp_all add: truthyNum_def)
  have "\<exists>t. saveAndReloadTask (tasks s) task (buildTaskEntityForReassignment task dto uid)
               = Inr (t, save (tasks s) t)
             \<and> taskId t = taskId row0 \<and> assignedUserId t = rAssignedUserId dto
             \<and> status t = status row0 \<and> startDate t = startDate row0
             \<and> endDate t = endDate row0"
    by (simp add: saveAndReloadTask_def objectAssign_def buildTaskEntityForReassignment_def
          task applyTaskReassignment_def)
  then obtain t where
    sv: "saveAndReloadTask (tasks s) task (buildTaskEntityForReassignment task dto uid)
           = Inr (t, save (tasks s) t)" and
    t: "taskId t = taskId row0" "assignedUserId t = rAssignedUserId dto"
       "status t = status row0" "startDate t = startDate row0" "endDate t = endDate row0"
    by blast
  have tid: "taskId t = tid"
    using findOne_Some [OF f] t(1) by simp
  let ?r' = "mergeRow row0 t"
  have r': "assignedUserId ?r' = rAssignedUserId dto" "status ?r' = status row0"
    "startDate ?r' = startDate row0" "endDate ?r' = endDate row0"
    using t by (simp_all add: mergeRow_def keepUndefined_def n)
  have free: "\<not> covers r v i"
    if "covers ?r' v i" and "r \<in> set (tasks s)" and "taskId r \<noteq> tid" for v i r
  proof
    assume "covers r v i"
    with that r' have "assignedUserId r = rAssignedUserId dto" "isVal (rAssignedUserId dto)"
      "status r \<noteq> COMPLETED" "startDate r \<le> endDate row0 \<and> endDate r \<ge> startDate row0"
      by (auto simp: covers_def isVal_def)
    with checkOverlap_False_free [OF chk that(2)] that(3) show False
      by simp
  qed
  have "noOverlapInvariant (save (tasks s) t)"
    unfolding save_existing [OF f dist tid]
    by (rule replace_row_preserves [OF inv dist free])
  moreover have "tasks (snd (reassign e tid dto uid s)) = save (tasks s) t"
    using Inr sv
    by (simp add: reassign_def Let_def queueAvailabilityUpdate_frame notify_tasks
          split: sum.splits)
  ultimately show ?thesis by simp
qed

text \<open>
  An update keeps the invariant whenever it passes through the overlap check, or does
  not set the status to IN_PROGRESS, or the task was not COMPLETED before.
\<close>

lemma update_preserves_invariant:
  assumes inv: "noOverlapInvariant (tasks s)" and dist: "distinct (map taskId (tasks s))"
    and ok: "\<And>old. findOne (tasks s) tid = Some old \<Longrightarrow>
               requiresOverlapValidation dto \<or> readProp (uStatus dto) \<noteq> Val IN_PROGRESS
               \<or> status old \<noteq> COMPLETED"
  shows "noOverlapInvariant (tasks (snd (update e tid dto uid role s)))"
proof (cases "servicePrepareTaskUpdate e (tasks s) tid dto uid role")
  case (Inl err)
  with inv show ?thesis by (simp add: update_def)
next
  case (Inr ctx)
  from Inr obtain row0 where
    f: "findOne (tasks s) tid = Some row0" and
    ctx: "(ctxTask ctx, ctxUpdates ctx) = buildTaskEntityForUpdate e row0 dto uid" and
    chk: "requiresOverlapValidation dto \<longrightarrow>
            checkOverlap (tasks s)
              (if truthyNum (readProp (uAssignedUserId dto)) then readProp (uAssignedUserId dto)
               else assignedUserId row0)
              (fst (calculateEffectiveDateRange e row0 dto))
              (snd (calculateEffectiveDateRange e row0 dto)) (Some tid) = Inr False"
    by (auto simp: servicePrepareTaskUpdate_def validateTaskUpdate_def prepareTaskUpdate_def
          Let_def split: option.splits sum.splits if_splits prod.splits)
  note row0 = findOne_Some [OF f]
  show ?thesis
  proof (cases "saveAndReloadTask (tasks s) (ctxTask ctx) (ctxUpdates ctx)")
    case (Inl err)
    with Inr inv show ?thesis by (simp add: update_def executeTaskUpdate_def)
  next
    case saved: (Inr p)
    obtain t ts' where p: "p = (t, ts')" by (cases p) auto
    from saved p have oa: "objectAssign (ctxTask ctx) (ctxUpdates ctx) = Some t"
      and ts': "ts' = save (tasks s) t"
      by (auto simp: saveAndReloadTask_def split: option.splits)
    have bt: "ctxTask ctx = fst (buildTaskEntityForUpdate e row0 dto uid)"
      "ctxUpdates ctx = snd (buildTaskEntityForUpdate e row0 dto uid)"
      using ctx by (metis fst_conv, metis snd_conv)
    have t: "taskId t = tid"
      "assignedUserId t = (if truthyNum (readProp (uAssignedUserId dto))
                             \<and> readProp (uAssignedUserId dto) \<noteq> assignedUserId row0
                           then readProp (uAssignedUserId dto) else assignedUserId row0)"
      "status t = (case readProp (uStatus dto) of Val x \<Rightarrow> x | _ \<Rightarrow> status row0)"
      "Some (startDate t) = fst (calculateEffectiveDateRange e row0 dto)"
      "Some (endDate t) = snd (calculateEffectiveDateRange e row0 dto)"
      using oa row0 unfolding bt
      by (auto simp: objectAssign_def buildTaskEntityForUpdate_def calculateEffectiveDateRange_def
            Let_def split: if_splits option.splits nullable.splits)
    let ?r' = "mergeRow row0 t"
    have r': "assignedUserId ?r'
                = (if truthyNum (readProp (uAssignedUserId dto)) then readProp (uAssignedUserId dto)
                   else assignedUserId row0)"
      "status ?r' = status t" "startDate ?r' = startDate t" "endDate ?r' = endDate t"
      using t(2)
      by (auto simp: mergeRow_def keepUndefined_def truthyNum_def split: nullable.splits if_splits)
    have free: "\<not> covers r v i"
      if c: "covers ?r' v i" and r: "r \<in> set (tasks s)" and ne: "taskId r \<noteq> tid" for v i r
    proof
      assume cr: "covers r v i"
      show False
      proof (cases "requiresOverlapValidation dto")
        case True
        with chk t(4,5) have
          "checkOverlap (tasks s)
              (if truthyNum (readProp (uAssignedUserId dto)) then readProp (uAssignedUserId dto)
               else assignedUserId row0)
              (Some (startDate t)) (Some (endDate t)) (Some tid) = Inr False"
          by simp
        from checkOverlap_False_free [OF this r] c cr ne r' show False
          by (auto simp: covers_def isVal_def)
      next
        case False
        then have same: "assignedUserId ?r' = assignedUserId row0"
          "startDate t = startDate row0" "endDate t = endDate row0"
          using r'(1) t(4,5)
          by (auto simp: requiresOverlapValidation_def calculateEffectiveDateRange_def Let_def)
        from ok [OF f] False
        have st: "readProp (uStatus dto) \<noteq> Val IN_PROGRESS \<or> status row0 \<noteq> COMPLETED"
          by simp
        from c r'(2) have tc: "status t \<noteq> COMPLETED"
          by (simp add: covers_def)
        have "status row0 \<noteq> COMPLETED"
        proof (cases "readProp (uStatus dto)")
          case Undefined
          with tc t(3) show ?thesis by simp
        next
          case Null
          with tc t(3) show ?thesis by simp
        next
          case (Val x)
          with tc t(3) have "x \<noteq> COMPLETED" by simp
          then have "x = IN_PROGRESS" by (cases x) simp_all
          with Val st show ?thesis by simp
        qed
        with c same r' have "covers row0 v i"
          by (simp add: covers_def)
        moreover have "row0 \<noteq> r" using row0 ne by auto
        ultimately have "2 \<le> length (filter (\<lambda>x. covers x v i) (tasks s))"
          using two_members_filter [of row0 "tasks s" r "\<lambda>x. covers x v i"] row0 r cr by simp
        with inv show False
          unfolding noOverlapInvariant_def
          by (metis Suc_1 not_less_eq_eq)
      qed
    qed
    have "noOverlapInvariant ts'"
      unfolding ts' save_existing [OF f dist t(1)]
      by (rule replace_row_preserves [OF inv dist free])
    moreover have "tasks (snd (update e tid dto uid role s)) = ts'"
      using Inr saved p
      by (simp add: update_def executeTaskUpdate_def Let_def handleTaskUpdateSideEffects_tasks
            split: sum.splits)
    ultimately show ?thesis by simp
  qed
qed

subsection \<open>Reassignment and creation in general\<close>

text \<open>
  Every successful reassignment, whatever the previous assignee, hands the queue one
  job, for the new assignee, and calls the gateway not at all.
\<close>

lemma reassign_success_effects:
  assumes "reassign e tid dto uid s = (Inr r, s')"
  shows "\<exists>u. rAssignedUserId dto = Val u \<and> u \<noteq> 0 \<and> assignedUserId r = Val u
             \<and> jobs s' = jobs s @ [(''update-availability'', u)]
             \<and> notified s' = notified s"
proof (cases "validateTaskReassignment (tasks s) tid dto")
  case (Inl err)
  with assms show ?thesis by (simp add: reassign_def)
next
  case (Inr task)
  then obtain row0 u where
    f: "findOne (tasks s) tid = Some row0" and
    task: "task = applyTaskReassignment row0 dto Undefined" and
    u: "rAssignedUserId dto = Val u" "u \<noteq> 0"
    by (auto simp: validateTaskReassignment_def prepareTaskReassignment_def
          validateTaskReassignmentData_def truthyNum_def
          split: option.splits sum.splits if_splits nullable.splits)
  have "\<exists>t. saveAndReloadTask (tasks s) task (buildTaskEntityForReassignment task dto uid)
               = Inr (t, save (tasks s) t)
             \<and> taskId t = taskId row0 \<and> assignedUserId t = Val u"
    using u
    by (simp add: saveAndReloadTask_def objectAssign_def buildTaskEntityForReassignment_def
          task applyTaskReassignment_def)
  then obtain t where
    sv: "saveAndReloadTask (tasks s) task (buildTaskEntityForReassignment task dto uid)
           = Inr (t, save (tasks s) t)" and
    t: "taskId t = taskId row0" "assignedUserId t = Val u"
    by blast
  have tid: "taskId t = tid" using findOne_Some [OF f] t(1) by simp
  have old: "assignedUserId task = Val u"
    by (simp add: task applyTaskReassignment_def u)
  have rl: "reloadTaskWithRelations (save (tasks s) t) tid ''reassigned''
              = Inr (mergeRow row0 t)"
    using findOne_save [of "tasks s" t row0] f tid by (simp add: reloadTaskWithRelations_def)
  have m: "assignedUserId (mergeRow row0 t) = Val u"
    by (simp add: mergeRow_def keepUndefined_def t(2))
  from assms u(2) show ?thesis
    unfolding reassign_def Let_def
    by (simp add: Inr sv old t(2) tid u(1) rl m queueAvailabilityUpdate_frame
          notifyTaskReassigned_def)
       (auto simp: queueAvailabilityUpdate_def m Let_def)
qed

text \<open>
  The field-set \<open>create\<close> persists and the one \<open>prepareTaskForCreation\<close> yields differ
  in the trimming of title and description only.
\<close>

lemma prepareTaskForCreation_vs_build:
  assumes "cTitle dto = Val t"
  shows "prepareTaskForCreation e dto uid
           = Inr ((buildTaskEntityForCreation e dto uid)
                    \<lparr> pTitle := Some (Val (trim t)),
                      pDescription := Some (optTrim (cDescription dto)) \<rparr>)"
  using assms by (simp add: prepareTaskForCreation_def buildTaskEntityForCreation_def)

end
